theory Spec2Isabelle
  imports Main "HOL-Library.Word"
begin

section \<open>docx-wasm/js/index.ts: the JavaScript front end of the docx writer\<close>

text \<open>
  The file \<^verbatim>\<open>index.ts\<close> holds the class \<^verbatim>\<open>Docx\<close>: a mutable document model with
  chaining mutators, the \<^verbatim>\<open>build*\<close> methods that replay the model on the builder
  objects of the wasm package (\<^verbatim>\<open>./pkg\<close>), and the two terminal calls \<^verbatim>\<open>build()\<close> and
  \<^verbatim>\<open>json()\<close>.

  Conventions of the embedding.
  \<^item> A JavaScript number is an \<^typ>\<open>int\<close>: the file does no arithmetic on numbers, it only
    tests them for truthiness and hands them on (non-integral numbers and NaN are not
    represented).
  \<^item> A field that may be \<^verbatim>\<open>undefined\<close> (or \<^verbatim>\<open>null\<close>) is an \<^typ>\<open>'a option\<close>.
  \<^item> A private field \<^verbatim>\<open>_name\<close> is written \<open>u_name\<close>; a name used by several classes
    gets the class as a prefix; a bound \<^verbatim>\<open>id\<close> is written \<open>i\<close> (\<open>id\<close> is the identity of HOL).
  \<^item> A string-literal union type of TypeScript is a \<^typ>\<open>string\<close>: nothing at run time
    keeps other strings out, and the \<^verbatim>\<open>default\<close> branches below are about them.
\<close>

subsection \<open>Enumerations of the wasm package named by index.ts\<close>

datatype BorderType =
    BorderType_Nil | BorderType_None | BorderType_Single | BorderType_Thick
  | BorderType_Double | BorderType_Dotted | BorderType_Dashed | BorderType_DotDash
  | BorderType_DotDotDash | BorderType_Triple

datatype WidthType = WidthType_Nil | WidthType_Pct | WidthType_DXA | WidthType_Auto

datatype BreakType = BreakType_Column | BreakType_Page | BreakType_TextWrapping

datatype VertAlignType = VertAlignType_SuperScript | VertAlignType_SubScript

datatype AlignmentType =
    AlignmentType_Center | AlignmentType_Right | AlignmentType_Justified
  | AlignmentType_Left | AlignmentType_Distribute | AlignmentType_Both | AlignmentType_End

datatype SpecialIndentKind = SpecialIndentKind_FirstLine | SpecialIndentKind_Hanging

datatype LineSpacingType =
  LineSpacingType_AtLeast | LineSpacingType_Auto | LineSpacingType_Exact

datatype HeightRule = HeightRule_Auto | HeightRule_AtLeast | HeightRule_Exact

datatype TableAlignmentType =
  TableAlignmentType_Center | TableAlignmentType_Right | TableAlignmentType_Left

datatype TableLayoutType = TableLayoutType_Fixed | TableLayoutType_Autofit

datatype VMergeType = VMergeType_Continue | VMergeType_Restart

datatype VAlignType = VAlignType_Top | VAlignType_Center | VAlignType_Bottom

datatype TableCellBorderPosition =
    Position_Top | Position_Right | Position_Bottom | Position_Left
  | Position_InsideH | Position_InsideV | Position_Tl2br | Position_Tr2bl

datatype LevelSuffixType = LevelSuffixType_Nothing | LevelSuffixType_Space | LevelSuffixType_Tab

datatype PageOrientationType = PageOrientationType_Landscape | PageOrientationType_Portrait

datatype DocGridType =
  DocGridType_Default | DocGridType_Lines | DocGridType_LinesAndChars | DocGridType_SnapToChars

subsection \<open>The builder objects of the wasm package\<close>

text \<open>
  The wasm package (\<^verbatim>\<open>./pkg\<close>, compiled from Rust) is not part of the sources at hand.
  Every object it hands out is used by \<^verbatim>\<open>index.ts\<close> in one way only: it is created by
  a \<^verbatim>\<open>wasm.createX(args)\<close> call and then replaced by the result of a method call on it
  (\<^verbatim>\<open>x = x.method(args)\<close>). Such an object is modelled by what the front end did to it:
  the arguments of its creation and the method calls made on it, in order. Nothing is
  assumed about what the package computes from them.
\<close>

datatype ('a, 'c) wasm_obj = Wasm_obj (created_with: 'a) (calls: "'c list")

definition create :: "'a \<Rightarrow> ('a, 'c) wasm_obj" where
  "create a = Wasm_obj a []"

definition call :: "('a, 'c) wasm_obj \<Rightarrow> 'c \<Rightarrow> ('a, 'c) wasm_obj" where
  "call obj c = Wasm_obj (created_with obj) (calls obj @ [c])"

datatype RunFonts_call =
  RunFonts_ascii string | RunFonts_hi_ansi string | RunFonts_cs string | RunFonts_east_asia string

type_synonym wasm_RunFonts = "(unit, RunFonts_call) wasm_obj"

datatype Run_call =
    Run_add_text string
  | Run_add_delete_text string
  | Run_add_tab
  | Run_add_break BreakType
  | Run_size int
  | Run_color string
  | Run_highlight string
  | Run_vert_align VertAlignType
  | Run_bold
  | Run_italic
  | Run_underline string
  | Run_vanish
  | Run_spacing int
  | Run_text_border BorderType int int string
  | Run_fonts wasm_RunFonts

type_synonym wasm_Run = "(unit, Run_call) wasm_obj"

datatype Insert_call = Insert_author string | Insert_date string

type_synonym wasm_Insert = "(wasm_Run, Insert_call) wasm_obj"

datatype Delete_call = Delete_author string | Delete_date string

type_synonym wasm_Delete = "(wasm_Run, Delete_call) wasm_obj"

datatype Paragraph_call =
    Paragraph_add_run wasm_Run
  | Paragraph_add_insert wasm_Insert
  | Paragraph_add_delete wasm_Delete
  | Paragraph_add_bookmark_start int string
  | Paragraph_add_bookmark_end int
  | Paragraph_add_comment_start "(int, Comment_call) wasm_obj"
  | Paragraph_add_comment_end int
  | Paragraph_align AlignmentType
  | Paragraph_indent int "SpecialIndentKind option" "int option"
  | Paragraph_numbering int int
  | Paragraph_style string
  | Paragraph_bold
  | Paragraph_line_spacing "int option" "int option" "int option" "LineSpacingType option"
  | Paragraph_italic
  | Paragraph_size int
  | Paragraph_fonts wasm_RunFonts
  | Paragraph_keep_lines bool
  | Paragraph_keep_next bool
  | Paragraph_page_break_before bool
  | Paragraph_window_control bool
and Comment_call =
    Comment_add_paragraph "(unit, Paragraph_call) wasm_obj"
  | Comment_author string
  | Comment_date string
  | Comment_parent_comment_id int

type_synonym wasm_Paragraph = "(unit, Paragraph_call) wasm_obj"
type_synonym wasm_Comment = "(int, Comment_call) wasm_obj"

datatype TableCellBorder_call =
  TableCellBorder_size int | TableCellBorder_color string | TableCellBorder_border_type BorderType

type_synonym wasm_TableCellBorder = "(TableCellBorderPosition, TableCellBorder_call) wasm_obj"

text \<open>
  \<open>TableCell_text_direction s\<close> stands for the call
  \<^verbatim>\<open>cell.text_direction(toTextDirectionWasmType(s))\<close>: the converter is imported from
  \<^verbatim>\<open>./table-cell\<close>, which is not at hand, so the call is recorded with the string it is
  applied to. \<open>Table_set_grid\<close> takes the elements of the \<^verbatim>\<open>Uint32Array\<close>.
\<close>

datatype Table_call =
    Table_add_row "(unit, TableRow_call) wasm_obj"
  | Table_set_grid "32 word list"
  | Table_indent int
  | Table_cell_margin_top int WidthType
  | Table_cell_margin_right int WidthType
  | Table_cell_margin_bottom int WidthType
  | Table_cell_margin_left int WidthType
  | Table_align TableAlignmentType
  | Table_layout TableLayoutType
and TableRow_call =
    TableRow_add_cell "(unit, TableCell_call) wasm_obj"
  | TableRow_row_height int
  | TableRow_height_rule HeightRule
and TableCell_call =
    TableCell_add_paragraph wasm_Paragraph
  | TableCell_add_table "(unit, Table_call) wasm_obj"
  | TableCell_vertical_merge VMergeType
  | TableCell_vertical_align VAlignType
  | TableCell_grid_span int
  | TableCell_width int
  | TableCell_text_direction string
  | TableCell_set_border wasm_TableCellBorder
  | TableCell_shading string string string

type_synonym wasm_Table = "(unit, Table_call) wasm_obj"
type_synonym wasm_TableRow = "(unit, TableRow_call) wasm_obj"
type_synonym wasm_TableCell = "(unit, TableCell_call) wasm_obj"

datatype Level_call =
    Level_suffix LevelSuffixType
  | Level_bold
  | Level_italic
  | Level_size int
  | Level_fonts wasm_RunFonts
  | Level_indent int "SpecialIndentKind option" "int option"

type_synonym wasm_Level = "(int \<times> int \<times> string \<times> string \<times> string, Level_call) wasm_obj"

datatype AbstractNumbering_call = AbstractNumbering_add_level wasm_Level

type_synonym wasm_AbstractNumbering = "(int, AbstractNumbering_call) wasm_obj"

datatype LevelOverride_call = LevelOverride_start int | LevelOverride_level wasm_Level

type_synonym wasm_LevelOverride = "(int, LevelOverride_call) wasm_obj"

datatype Numbering_call = Numbering_add_override wasm_LevelOverride

type_synonym wasm_Numbering = "(int \<times> int, Numbering_call) wasm_obj"

datatype PageMargin_call =
    PageMargin_top int | PageMargin_left int | PageMargin_right int | PageMargin_bottom int
  | PageMargin_header int | PageMargin_footer int | PageMargin_gutter int

type_synonym wasm_PageMargin = "(unit, PageMargin_call) wasm_obj"

datatype WebExtension_call = WebExtension_property string string

type_synonym wasm_WebExtension =
  "(string \<times> string \<times> string \<times> string \<times> string, WebExtension_call) wasm_obj"

datatype Docx_call =
    Docx_add_paragraph wasm_Paragraph
  | Docx_add_table wasm_Table
  | Docx_add_bookmark_start int string
  | Docx_add_bookmark_end int
  | Docx_add_abstract_numbering wasm_AbstractNumbering
  | Docx_add_numbering wasm_Numbering
  | Docx_doc_id string
  | Docx_default_tab_stop int
  | Docx_add_doc_var string string
  | Docx_page_margin wasm_PageMargin
  | Docx_page_size int int
  | Docx_page_orient PageOrientationType
  | Docx_doc_grid DocGridType "int option" "int option"
  | Docx_default_fonts wasm_RunFonts
  | Docx_default_size int
  | Docx_default_spacing int
  | Docx_created_at string
  | Docx_updated_at string
  | Docx_custom_property string string
  | Docx_taskpanes
  | Docx_web_extension wasm_WebExtension
  | Docx_add_custom_item string string

type_synonym wasm_Docx = "(unit, Docx_call) wasm_obj"

subsection \<open>The document model\<close>

text \<open>
  The model classes (\<^verbatim>\<open>Paragraph\<close>, \<^verbatim>\<open>Run\<close>, \<^verbatim>\<open>Table\<close>, ...) are imported from sibling
  files that are not at hand. Each class is given the fields that \<^verbatim>\<open>index.ts\<close> reads,
  under the names it reads them by (with a prefix for the class), and the type that the
  reads need: \<^typ>\<open>'a option\<close> where the file tests for \<^verbatim>\<open>undefined\<close> or \<^verbatim>\<open>null\<close> or
  for truthiness of a string, a number or an object, \<^typ>\<open>bool\<close> where it tests a flag
  (\<^verbatim>\<open>undefined\<close> reads as \<^verbatim>\<open>false\<close>).
\<close>

record RunFonts =
  u_ascii :: "string option"
  u_hiAnsi :: "string option"
  u_cs :: "string option"
  u_eastAsia :: "string option"

datatype RunChild = Text string | DeleteText string | Tab | Break string

record TextBorder =
  tb_borderType :: string
  tb_color :: string
  tb_space :: int
  tb_size :: int

record RunProperty =
  rp_size :: "int option"
  rp_color :: "string option"
  rp_highlight :: "string option"
  rp_vertAlign :: "string option"
  rp_bold :: bool
  rp_italic :: bool
  rp_underline :: "string option"
  rp_vanish :: bool
  rp_spacing :: "int option"
  rp_textBorder :: "TextBorder option"
  rp_fonts :: "RunFonts option"

record Run =
  run_children :: "RunChild list"
  run_property :: RunProperty

record Insert =
  insert_run :: Run
  insert_author :: "string option"
  insert_date :: "string option"

record Delete =
  delete_run :: Run
  delete_author :: "string option"
  delete_date :: "string option"

record Indent =
  indent_left :: int
  indent_specialIndentKind :: "string option"
  indent_specialIndentSize :: "int option"

record NumberingRef =
  numbering_id :: int
  numbering_level :: int

record LineSpacing =
  ls_before :: "int option"
  ls_after :: "int option"
  ls_line :: "int option"
  ls_lineRule :: "string option"

record ParagraphProperty =
  pp_align :: "string option"
  pp_indent :: "Indent option"
  pp_numbering :: "NumberingRef option"
  pp_styleId :: "string option"
  pp_runProperty :: RunProperty
  pp_lineSpacing :: "LineSpacing option"
  pp_keepLines :: bool
  pp_keepNext :: bool
  pp_pageBreakBefore :: bool
  pp_windowControl :: bool

record TableCellBorder =
  tcb_size :: int
  tcb_color :: string
  tcb_border_type :: string

record TableCellBorders =
  borders_top :: "TableCellBorder option"
  borders_right :: "TableCellBorder option"
  borders_bottom :: "TableCellBorder option"
  borders_left :: "TableCellBorder option"
  borders_insideH :: "TableCellBorder option"
  borders_insideV :: "TableCellBorder option"
  borders_tl2br :: "TableCellBorder option"
  borders_tr2bl :: "TableCellBorder option"

record Shading =
  shading_type :: string
  shading_color :: string
  shading_fill :: string

record CellProperty =
  cp_verticalMerge :: "string option"
  cp_verticalAlign :: "string option"
  cp_gridSpan :: "int option"
  cp_width :: "int option"
  cp_textDirection :: "string option"
  cp_borders :: "TableCellBorders option"
  cp_shading :: "Shading option"

record CellMargin =
  cm_val :: int
  cm_type :: string

record CellMargins =
  margins_top :: CellMargin
  margins_right :: CellMargin
  margins_bottom :: CellMargin
  margins_left :: CellMargin

record TableProperty =
  tp_indent :: "int option"
  tp_cellMargins :: "CellMargins option"
  tp_align :: "string option"
  tp_layout :: "string option"

text \<open>
  A paragraph may hold comments, a comment paragraphs and tables, a table cell paragraphs
  and tables: the classes of the tree are one family of mutually recursive types. The
  union types of the children lists are datatypes with one constructor per class, in the
  order of the \<^verbatim>\<open>instanceof\<close> tests; the classes are taken to be unrelated by
  inheritance, so that a child passes the test of its own class only.
\<close>

datatype Paragraph =
  Paragraph (p_children: "ParagraphChild list") (p_property: ParagraphProperty)
    (p_hasNumberings: bool)
and ParagraphChild =
    PChild_Run Run
  | PChild_Insert Insert
  | PChild_Delete Delete
  | PChild_BookmarkStart int string
  | PChild_BookmarkEnd int
  | PChild_Comment Comment
  | PChild_CommentEnd int
and Comment =
  Comment (comment_id: int) (comment_children: "CommentChild list")
    (comment_author: "string option") (comment_date: "string option")
    (comment_parentCommentId: "int option")
and CommentChild = CChild_Paragraph Paragraph | CChild_Table Table
and Table =
  Table (t_rows: "TableRow list") (t_grid: "int list") (t_property: TableProperty)
    (t_hasNumberings: bool)
and TableRow =
  TableRow (row_cells: "TableCell list") (row_height: "int option") (row_hRule: "string option")
and TableCell =
  TableCell (cell_children: "TableCellChild list") (cell_property: CellProperty)
and TableCellChild = TCChild_Paragraph Paragraph | TCChild_Table Table

record Level =
  level_id :: int
  level_start :: int
  level_format :: string
  level_text :: string
  level_jc :: string
  level_levelSuffix :: "string option"
  level_runProperty :: RunProperty
  level_paragraphProperty :: ParagraphProperty

record AbstractNumbering =
  an_id :: int
  an_levels :: "Level list"

record OverrideLevel =
  ol_level :: int
  ol_start :: int
  ol_format :: string
  ol_text :: string
  ol_jc :: string

record LevelOverride =
  lo_level :: int
  lo_startOverride :: "int option"
  lo_levelOverride :: "OverrideLevel option"

record Numbering =
  num_id :: int
  num_abstractNumId :: int
  num_overrides :: "LevelOverride list"

text \<open>
  Lists of pairs: \<open>u_docVars\<close> holds (name, val), \<open>customItems\<close> (id, xml);
  \<open>u_customProperties\<close> and \<open>we_properties\<close> are the objects read through
  \<^verbatim>\<open>Object.entries\<close>, given as the list of entries it returns.
\<close>

record Settings =
  u_docId :: "string option"
  u_defaultTabStop :: int
  u_docVars :: "(string \<times> string) list"

record DocProps =
  u_createdAt :: "string option"
  u_updatedAt :: "string option"
  u_customProperties :: "(string \<times> string) list"

record PageMargin =
  pm_top :: int
  pm_left :: int
  pm_right :: int
  pm_bottom :: int
  pm_header :: int
  pm_footer :: int
  pm_gutter :: int

record PageSize =
  ps_w :: int
  ps_h :: int
  ps_orient :: "string option"

record DocGrid =
  dg_gridType :: string
  dg_charSpace :: "int option"
  dg_linePitch :: "int option"

record SectionProperty =
  u_pageMargin :: "PageMargin option"
  u_pageSize :: "PageSize option"
  u_docGrid :: "DocGrid option"

record DocDefaults =
  dd_runProperty :: "RunProperty option"

record Styles =
  docDefaults :: "DocDefaults option"

record WebExtension =
  we_id :: string
  we_referenceId :: string
  we_version :: string
  we_store :: string
  we_storeType :: string
  we_properties :: "(string \<times> string) list"

datatype DocxChild =
    Child_Paragraph Paragraph
  | Child_Table Table
  | Child_BookmarkStart int string
  | Child_BookmarkEnd int

record Docx =
  children :: "DocxChild list"
  hasNumberings :: bool
  abstractNumberings :: "AbstractNumbering list"
  numberings :: "Numbering list"
  settings :: Settings
  docProps :: DocProps
  sectionProperty :: SectionProperty
  u_taskpanes :: bool
  webextensions :: "WebExtension list"
  customItems :: "(string \<times> string) list"
  styles :: Styles

subsection \<open>Truthiness\<close>

text \<open>
  \<^verbatim>\<open>if (x)\<close> on an optional string holds when the string is defined and not empty, on
  an optional number when it is defined and not zero.
\<close>

definition truthy_string :: "string option \<Rightarrow> bool" where
  "truthy_string x = (case x of None \<Rightarrow> False | Some s \<Rightarrow> s \<noteq> [])"

definition truthy_number :: "int option \<Rightarrow> bool" where
  "truthy_number x = (case x of None \<Rightarrow> False | Some n \<Rightarrow> n \<noteq> 0)"

subsection \<open>convertBorderType, convertWidthType (lines 32-72)\<close>

definition convertBorderType :: "string \<Rightarrow> BorderType" where
  "convertBorderType t =
    (if t = ''nil'' then BorderType_Nil
     else if t = ''none'' then BorderType_None
     else if t = ''single'' then BorderType_Single
     else if t = ''thick'' then BorderType_Thick
     else if t = ''double'' then BorderType_Double
     else if t = ''dotted'' then BorderType_Dotted
     else if t = ''dashed'' then BorderType_Dashed
     else if t = ''dotDash'' then BorderType_DotDash
     else if t = ''dotDotDash'' then BorderType_DotDotDash
     else if t = ''triple'' then BorderType_Triple
     else BorderType_Single)"

definition convertWidthType :: "string \<Rightarrow> WidthType" where
  "convertWidthType t =
    (if t = ''nil'' then WidthType_Nil
     else if t = ''Pct'' then WidthType_Pct
     else if t = ''DXA'' then WidthType_DXA
     else if t = ''Auto'' then WidthType_Auto
     else WidthType_DXA)"

subsection \<open>Errors\<close>

text \<open>
  What a call can raise: the two errors of the specification's taxonomy, and the two
  JavaScript exceptions the file can meet (a property read on \<^verbatim>\<open>undefined\<close>, and
  \<^verbatim>\<open>JSON.parse\<close> on a malformed text).
\<close>

datatype error = ValidationError | PackageError | TypeError | SyntaxError

subsection \<open>buildRunFonts, buildRun, buildInsert, buildDelete (lines 203-313)\<close>

abbreviation wasm_createRunFonts :: wasm_RunFonts where
  "wasm_createRunFonts \<equiv> create ()"

abbreviation wasm_createRun :: wasm_Run where
  "wasm_createRun \<equiv> create ()"

abbreviation wasm_createInsert :: "wasm_Run \<Rightarrow> wasm_Insert" where
  "wasm_createInsert run \<equiv> create run"

abbreviation wasm_createDelete :: "wasm_Run \<Rightarrow> wasm_Delete" where
  "wasm_createDelete run \<equiv> create run"

text \<open>\<^verbatim>\<open>fonts?._ascii\<close> is \<open>Option.bind fonts u_ascii\<close>.\<close>

definition buildRunFonts :: "RunFonts option \<Rightarrow> wasm_RunFonts" where
  "buildRunFonts fonts =
    (let f = wasm_createRunFonts;
         f = (if truthy_string (Option.bind fonts u_ascii)
              then call f (RunFonts_ascii (the (Option.bind fonts u_ascii))) else f);
         f = (if truthy_string (Option.bind fonts u_hiAnsi)
              then call f (RunFonts_hi_ansi (the (Option.bind fonts u_hiAnsi))) else f);
         f = (if truthy_string (Option.bind fonts u_cs)
              then call f (RunFonts_cs (the (Option.bind fonts u_cs))) else f);
         f = (if truthy_string (Option.bind fonts u_eastAsia)
              then call f (RunFonts_east_asia (the (Option.bind fonts u_eastAsia))) else f)
     in f)"

text \<open>The callback of \<^verbatim>\<open>r.children.forEach\<close> (lines 222-238), on the run built so far.\<close>

definition buildRun_child :: "RunChild \<Rightarrow> wasm_Run \<Rightarrow> wasm_Run" where
  "buildRun_child child run =
    (case child of
       Text t \<Rightarrow> call run (Run_add_text t)
     | DeleteText t \<Rightarrow> call run (Run_add_delete_text t)
     | Tab \<Rightarrow> call run Run_add_tab
     | Break ty \<Rightarrow>
         if ty = ''column'' then call run (Run_add_break BreakType_Column)
         else if ty = ''page'' then call run (Run_add_break BreakType_Page)
         else if ty = ''textWrapping'' then call run (Run_add_break BreakType_TextWrapping)
         else run)"

text \<open>The statements of buildRun after the loop over the children (lines 240-288).\<close>

definition buildRun_property :: "RunProperty \<Rightarrow> wasm_Run \<Rightarrow> wasm_Run" where
  "buildRun_property property run =
    (let run = (case rp_size property of None \<Rightarrow> run | Some n \<Rightarrow> call run (Run_size n));
         run = (if truthy_string (rp_color property)
                then call run (Run_color (the (rp_color property))) else run);
         run = (if truthy_string (rp_highlight property)
                then call run (Run_highlight (the (rp_highlight property))) else run);
         run = (if truthy_string (rp_vertAlign property)
                then (if rp_vertAlign property = Some ''superscript''
                      then call run (Run_vert_align VertAlignType_SuperScript)
                      else if rp_vertAlign property = Some ''subscript''
                      then call run (Run_vert_align VertAlignType_SubScript)
                      else run)
                else run);
         run = (if rp_bold property then call run Run_bold else run);
         run = (if rp_italic property then call run Run_italic else run);
         run = (if truthy_string (rp_underline property)
                then call run (Run_underline (the (rp_underline property))) else run);
         run = (if rp_vanish property then call run Run_vanish else run);
         run = (case rp_spacing property of None \<Rightarrow> run | Some n \<Rightarrow> call run (Run_spacing n));
         run = (case rp_textBorder property of
                  None \<Rightarrow> run
                | Some b \<Rightarrow>
                    call run (Run_text_border (convertBorderType (tb_borderType b))
                      (tb_size b) (tb_space b) (tb_color b)));
         fonts = buildRunFonts (rp_fonts property);
         run = call run (Run_fonts fonts)
     in run)"

definition buildRun :: "Run \<Rightarrow> wasm_Run" where
  "buildRun r =
    (let run = wasm_createRun;
         run = fold buildRun_child (run_children r) run
     in buildRun_property (run_property r) run)"

definition buildInsert :: "Insert \<Rightarrow> wasm_Insert" where
  "buildInsert i =
    (let run = buildRun (insert_run i);
         ins = wasm_createInsert run;
         ins = (if truthy_string (insert_author i)
                then call ins (Insert_author (the (insert_author i))) else ins);
         ins = (if truthy_string (insert_date i)
                then call ins (Insert_date (the (insert_date i))) else ins)
     in ins)"

definition buildDelete :: "Delete \<Rightarrow> wasm_Delete" where
  "buildDelete d =
    (let run = buildRun (delete_run d);
         del = wasm_createDelete run;
         del = (if truthy_string (delete_author d)
                then call del (Delete_author (the (delete_author d))) else del);
         del = (if truthy_string (delete_date d)
                then call del (Delete_date (the (delete_date d))) else del)
     in del)"

subsection \<open>buildComment, buildParagraph (lines 315-482)\<close>

abbreviation wasm_createComment :: "int \<Rightarrow> wasm_Comment" where
  "wasm_createComment i \<equiv> create i"

abbreviation wasm_createParagraph :: wasm_Paragraph where
  "wasm_createParagraph \<equiv> create ()"

text \<open>
  The run fonts built in line from a font object that is known to be defined: the same
  statements stand in buildParagraph (lines 449-461) and in buildLevel (lines 724-736).
\<close>

definition inline_RunFonts :: "RunFonts \<Rightarrow> wasm_RunFonts" where
  "inline_RunFonts fonts =
    (let f = wasm_createRunFonts;
         f = (if truthy_string (u_ascii fonts)
              then call f (RunFonts_ascii (the (u_ascii fonts))) else f);
         f = (if truthy_string (u_hiAnsi fonts)
              then call f (RunFonts_hi_ansi (the (u_hiAnsi fonts))) else f);
         f = (if truthy_string (u_cs fonts)
              then call f (RunFonts_cs (the (u_cs fonts))) else f);
         f = (if truthy_string (u_eastAsia fonts)
              then call f (RunFonts_east_asia (the (u_eastAsia fonts))) else f)
     in f)"

text \<open>
  The statements of buildParagraph after the loop over the children (lines 360-481):
  they read the paragraph's property only.
\<close>

definition buildParagraph_property :: "ParagraphProperty \<Rightarrow> wasm_Paragraph \<Rightarrow> wasm_Paragraph" where
  "buildParagraph_property property paragraph =
    (let paragraph =
           (if pp_align property = Some ''center''
              then call paragraph (Paragraph_align AlignmentType_Center)
            else if pp_align property = Some ''right''
              then call paragraph (Paragraph_align AlignmentType_Right)
            else if pp_align property = Some ''justified''
              then call paragraph (Paragraph_align AlignmentType_Justified)
            else if pp_align property = Some ''left''
              then call paragraph (Paragraph_align AlignmentType_Left)
            else if pp_align property = Some ''distribute''
              then call paragraph (Paragraph_align AlignmentType_Distribute)
            else if pp_align property = Some ''both''
              then call paragraph (Paragraph_align AlignmentType_Both)
            else if pp_align property = Some ''end''
              then call paragraph (Paragraph_align AlignmentType_End)
            else paragraph);
         paragraph =
           (case pp_indent property of
              None \<Rightarrow> paragraph
            | Some indent \<Rightarrow>
                (let kind =
                       (if indent_specialIndentKind indent = Some ''firstLine''
                          then Some SpecialIndentKind_FirstLine
                        else if indent_specialIndentKind indent = Some ''hanging''
                          then Some SpecialIndentKind_Hanging
                        else None)
                 in call paragraph
                      (Paragraph_indent (indent_left indent) kind (indent_specialIndentSize indent))));
         paragraph =
           (case pp_numbering property of
              None \<Rightarrow> paragraph
            | Some numbering \<Rightarrow>
                call paragraph (Paragraph_numbering (numbering_id numbering) (numbering_level numbering)));
         paragraph =
           (case pp_styleId property of
              None \<Rightarrow> paragraph
            | Some styleId \<Rightarrow> call paragraph (Paragraph_style styleId));
         paragraph =
           (if rp_bold (pp_runProperty property) then call paragraph Paragraph_bold else paragraph);
         paragraph =
           (case pp_lineSpacing property of
              None \<Rightarrow> paragraph
            | Some lineSpacing \<Rightarrow>
                (let kind =
                       (if ls_lineRule lineSpacing = Some ''atLeast''
                          then Some LineSpacingType_AtLeast
                        else if ls_lineRule lineSpacing = Some ''auto''
                          then Some LineSpacingType_Auto
                        else if ls_lineRule lineSpacing = Some ''exact''
                          then Some LineSpacingType_Exact
                        else None)
                 in call paragraph
                      (Paragraph_line_spacing (ls_before lineSpacing) (ls_after lineSpacing)
                         (ls_line lineSpacing) kind)));
         paragraph =
           (if rp_italic (pp_runProperty property) then call paragraph Paragraph_italic
            else paragraph);
         paragraph =
           (if truthy_number (rp_size (pp_runProperty property))
            then call paragraph (Paragraph_size (the (rp_size (pp_runProperty property))))
            else paragraph);
         paragraph =
           (case rp_fonts (pp_runProperty property) of
              None \<Rightarrow> paragraph
            | Some fonts \<Rightarrow> call paragraph (Paragraph_fonts (inline_RunFonts fonts)));
         paragraph =
           (if pp_keepLines property then call paragraph (Paragraph_keep_lines True)
            else paragraph);
         paragraph =
           (if pp_keepNext property then call paragraph (Paragraph_keep_next True)
            else paragraph);
         paragraph =
           (if pp_pageBreakBefore property then call paragraph (Paragraph_page_break_before True)
            else paragraph);
         paragraph =
           (if pp_windowControl property then call paragraph (Paragraph_window_control True)
            else paragraph)
     in paragraph)"

text \<open>
  The statements of buildComment after the loop over the children (lines 324-333).
\<close>

definition buildComment_attributes ::
  "string option \<Rightarrow> string option \<Rightarrow> int option \<Rightarrow> wasm_Comment \<Rightarrow> wasm_Comment" where
  "buildComment_attributes author date parentCommentId comment =
    (let comment = (if truthy_string author then call comment (Comment_author (the author))
                    else comment);
         comment = (if truthy_string date then call comment (Comment_date (the date))
                    else comment);
         comment = (if truthy_number parentCommentId
                    then call comment (Comment_parent_comment_id (the parentCommentId))
                    else comment)
     in comment)"

text \<open>
  buildComment skips a table among a comment's children (the branch holds a TODO only).
\<close>

fun buildComment :: "Comment \<Rightarrow> wasm_Comment"
and buildParagraph :: "Paragraph \<Rightarrow> wasm_Paragraph" where
  "buildComment (Comment i cs author date parentCommentId) =
    (let comment = wasm_createComment i;
         comment =
           fold (\<lambda>child comment.
                   case child of
                     CChild_Paragraph p \<Rightarrow> call comment (Comment_add_paragraph (buildParagraph p))
                   | CChild_Table t \<Rightarrow> comment)
             cs comment
     in buildComment_attributes author date parentCommentId comment)"
| "buildParagraph (Paragraph cs property numbered) =
    (let paragraph = wasm_createParagraph;
         paragraph =
           fold (\<lambda>child paragraph.
                   case child of
                     PChild_Run r \<Rightarrow> call paragraph (Paragraph_add_run (buildRun r))
                   | PChild_Insert i \<Rightarrow> call paragraph (Paragraph_add_insert (buildInsert i))
                   | PChild_Delete d \<Rightarrow> call paragraph (Paragraph_add_delete (buildDelete d))
                   | PChild_BookmarkStart i name \<Rightarrow>
                       call paragraph (Paragraph_add_bookmark_start i name)
                   | PChild_BookmarkEnd i \<Rightarrow> call paragraph (Paragraph_add_bookmark_end i)
                   | PChild_Comment c \<Rightarrow>
                       call paragraph (Paragraph_add_comment_start (buildComment c))
                   | PChild_CommentEnd i \<Rightarrow> call paragraph (Paragraph_add_comment_end i))
             cs paragraph
     in buildParagraph_property property paragraph)"

subsection \<open>buildCellBorders (lines 618-698)\<close>

abbreviation wasm_createTableCellBorder :: "TableCellBorderPosition \<Rightarrow> wasm_TableCellBorder" where
  "wasm_createTableCellBorder position \<equiv> create position"

text \<open>
  The border object each of the eight blocks of buildCellBorders builds:
  \<^verbatim>\<open>wasm.createTableCellBorder(position).size(b._size).color(b._color)
    .border_type(convertBorderType(b._border_type))\<close>.
\<close>

definition buildCellBorder :: "TableCellBorderPosition \<Rightarrow> TableCellBorder \<Rightarrow> wasm_TableCellBorder" where
  "buildCellBorder position b =
    call (call (call (wasm_createTableCellBorder position)
      (TableCellBorder_size (tcb_size b)))
      (TableCellBorder_color (tcb_color b)))
      (TableCellBorder_border_type (convertBorderType (tcb_border_type b)))"

text \<open>
  One block \<^verbatim>\<open>if (js.property.borders.x) { ...; cell = cell.set_border(border); }\<close>:
  a border object is truthy, so the test is for a defined slot.
\<close>

definition set_border_if ::
  "TableCellBorder option \<Rightarrow> TableCellBorderPosition \<Rightarrow> wasm_TableCell \<Rightarrow> wasm_TableCell" where
  "set_border_if slot position cell =
    (case slot of
       None \<Rightarrow> cell
     | Some b \<Rightarrow> call cell (TableCell_set_border (buildCellBorder position b)))"

text \<open>
  buildCellBorders reads \<^verbatim>\<open>js.property.borders.top\<close> first: where \<^verbatim>\<open>borders\<close> is
  undefined, that read raises a TypeError. (buildCell calls it under the test that
  \<^verbatim>\<open>borders\<close> is defined.)
\<close>

definition buildCellBorders :: "TableCell \<Rightarrow> wasm_TableCell \<Rightarrow> error + wasm_TableCell" where
  "buildCellBorders js cell =
    (case cp_borders (cell_property js) of
       None \<Rightarrow> Inl TypeError
     | Some borders \<Rightarrow>
         (let cell = set_border_if (borders_top borders) Position_Top cell;
              cell = set_border_if (borders_right borders) Position_Right cell;
              cell = set_border_if (borders_bottom borders) Position_Bottom cell;
              cell = set_border_if (borders_left borders) Position_Left cell;
              cell = set_border_if (borders_insideH borders) Position_InsideH cell;
              cell = set_border_if (borders_insideV borders) Position_InsideV cell;
              cell = set_border_if (borders_tl2br borders) Position_Tl2br cell;
              cell = set_border_if (borders_tr2bl borders) Position_Tr2bl cell
          in Inr cell))"

subsection \<open>buildTable, buildCell (lines 484-616)\<close>

abbreviation wasm_createTable :: wasm_Table where
  "wasm_createTable \<equiv> create ()"

abbreviation wasm_createTableRow :: wasm_TableRow where
  "wasm_createTableRow \<equiv> create ()"

abbreviation wasm_createTableCell :: wasm_TableCell where
  "wasm_createTableCell \<equiv> create ()"

text \<open>The statements of the row loop after the loop over the cells (lines 493-512).\<close>

definition buildTable_row_property :: "int option \<Rightarrow> string option \<Rightarrow> wasm_TableRow \<Rightarrow> wasm_TableRow" where
  "buildTable_row_property height hRule row =
    (let row = (if truthy_number height then call row (TableRow_row_height (the height))
                else row);
         row = (if truthy_string hRule
                then (if hRule = Some ''auto'' then call row (TableRow_height_rule HeightRule_Auto)
                      else if hRule = Some ''atLeast''
                        then call row (TableRow_height_rule HeightRule_AtLeast)
                      else if hRule = Some ''exact''
                        then call row (TableRow_height_rule HeightRule_Exact)
                      else row)
                else row)
     in row)"

text \<open>
  The statements of buildTable after the loop over the rows (lines 515-553).
  \<^verbatim>\<open>new Uint32Array(t.grid)\<close> converts each number modulo \<open>2 ^ 32\<close>;
  \<^verbatim>\<open>t.property.indent || 0\<close> is the indent where it is truthy and \<open>0\<close> otherwise.
\<close>

definition buildTable_property :: "int list \<Rightarrow> TableProperty \<Rightarrow> wasm_Table \<Rightarrow> wasm_Table" where
  "buildTable_property grid property table =
    (let table = call table (Table_set_grid (map word_of_int grid));
         table = call table
           (Table_indent (if truthy_number (tp_indent property) then the (tp_indent property)
                          else 0));
         table =
           (case tp_cellMargins property of
              None \<Rightarrow> table
            | Some margins \<Rightarrow>
                call (call (call (call table
                  (Table_cell_margin_top (cm_val (margins_top margins))
                     (convertWidthType (cm_type (margins_top margins)))))
                  (Table_cell_margin_right (cm_val (margins_right margins))
                     (convertWidthType (cm_type (margins_right margins)))))
                  (Table_cell_margin_bottom (cm_val (margins_bottom margins))
                     (convertWidthType (cm_type (margins_bottom margins)))))
                  (Table_cell_margin_left (cm_val (margins_left margins))
                     (convertWidthType (cm_type (margins_left margins)))));
         table =
           (if tp_align property = Some ''center''
              then call table (Table_align TableAlignmentType_Center)
            else if tp_align property = Some ''right''
              then call table (Table_align TableAlignmentType_Right)
            else if tp_align property = Some ''left''
              then call table (Table_align TableAlignmentType_Left)
            else table);
         table =
           (if tp_layout property = Some ''fixed''
              then call table (Table_layout TableLayoutType_Fixed)
            else if tp_layout property = Some ''autofit''
              then call table (Table_layout TableLayoutType_Autofit)
            else table)
     in table)"

text \<open>
  The statements of buildCell after the loop over the children (lines 568-615), for the
  cell \<open>js\<close>. The call of buildCellBorders stands under the test that
  \<^verbatim>\<open>borders\<close> is defined, where it raises nothing (\<open>buildCellBorders_Some\<close> below).
\<close>

definition buildCell_property :: "TableCell \<Rightarrow> wasm_TableCell \<Rightarrow> wasm_TableCell" where
  "buildCell_property js cell =
    (let property = cell_property js;
         cell =
           (if cp_verticalMerge property = Some ''continue''
              then call cell (TableCell_vertical_merge VMergeType_Continue)
            else if cp_verticalMerge property = Some ''restart''
              then call cell (TableCell_vertical_merge VMergeType_Restart)
            else cell);
         cell =
           (if cp_verticalAlign property = Some ''top''
              then call cell (TableCell_vertical_align VAlignType_Top)
            else if cp_verticalAlign property = Some ''center''
              then call cell (TableCell_vertical_align VAlignType_Center)
            else if cp_verticalAlign property = Some ''bottom''
              then call cell (TableCell_vertical_align VAlignType_Bottom)
            else cell);
         cell = (case cp_gridSpan property of
                   None \<Rightarrow> cell | Some n \<Rightarrow> call cell (TableCell_grid_span n));
         cell = (case cp_width property of
                   None \<Rightarrow> cell | Some n \<Rightarrow> call cell (TableCell_width n));
         cell = (case cp_textDirection property of
                   None \<Rightarrow> cell | Some d \<Rightarrow> call cell (TableCell_text_direction d));
         cell = (case cp_borders property of
                   None \<Rightarrow> cell
                 | Some borders \<Rightarrow>
                     (case buildCellBorders js cell of Inr bordered \<Rightarrow> bordered | Inl e \<Rightarrow> cell));
         cell = (case cp_shading property of
                   None \<Rightarrow> cell
                 | Some shading \<Rightarrow>
                     call cell (TableCell_shading (shading_type shading) (shading_color shading)
                       (shading_fill shading)))
     in cell)"

fun buildTable :: "Table \<Rightarrow> wasm_Table"
and buildCell :: "TableCell \<Rightarrow> wasm_TableCell" where
  "buildTable (Table rows grid property numbered) =
    (let table = wasm_createTable;
         table =
           fold (\<lambda>r table.
                   case r of
                     TableRow cells height hRule \<Rightarrow>
                       (let row = wasm_createTableRow;
                            row = fold (\<lambda>c row. call row (TableRow_add_cell (buildCell c)))
                                    cells row;
                            row = buildTable_row_property height hRule row
                        in call table (Table_add_row row)))
             rows table
     in buildTable_property grid property table)"
| "buildCell (TableCell cs property) =
    (let cell = wasm_createTableCell;
         cell =
           fold (\<lambda>c cell.
                   case c of
                     TCChild_Paragraph p \<Rightarrow> call cell (TableCell_add_paragraph (buildParagraph p))
                   | TCChild_Table t \<Rightarrow> call cell (TableCell_add_table (buildTable t)))
             cs cell
     in buildCell_property (TableCell cs property) cell)"

subsection \<open>buildLevel (lines 700-754)\<close>

abbreviation wasm_createLevel :: "int \<Rightarrow> int \<Rightarrow> string \<Rightarrow> string \<Rightarrow> string \<Rightarrow> wasm_Level" where
  "wasm_createLevel i start format txt jc \<equiv> create (i, start, format, txt, jc)"

definition buildLevel :: "Level \<Rightarrow> wasm_Level" where
  "buildLevel l =
    (let level = wasm_createLevel (level_id l) (level_start l) (level_format l) (level_text l)
                   (level_jc l);
         level =
           (if level_levelSuffix l = Some ''nothing''
              then call level (Level_suffix LevelSuffixType_Nothing)
            else if level_levelSuffix l = Some ''space''
              then call level (Level_suffix LevelSuffixType_Space)
            else call level (Level_suffix LevelSuffixType_Tab));
         level = (if rp_bold (level_runProperty l) then call level Level_bold else level);
         level = (if rp_italic (level_runProperty l) then call level Level_italic else level);
         level =
           (if truthy_number (rp_size (level_runProperty l))
            then call level (Level_size (the (rp_size (level_runProperty l))))
            else level);
         level =
           (case rp_fonts (level_runProperty l) of
              None \<Rightarrow> level
            | Some fonts \<Rightarrow> call level (Level_fonts (inline_RunFonts fonts)));
         level =
           (case pp_indent (level_paragraphProperty l) of
              None \<Rightarrow> level
            | Some indent \<Rightarrow>
                (let kind =
                       (if indent_specialIndentKind indent = Some ''firstLine''
                          then Some SpecialIndentKind_FirstLine
                        else if indent_specialIndentKind indent = Some ''hanging''
                          then Some SpecialIndentKind_Hanging
                        else None)
                 in call level
                      (Level_indent (indent_left indent) kind (indent_specialIndentSize indent))))
     in level)"

subsection \<open>createDocx (lines 756-919)\<close>

abbreviation wasm_createDocx :: wasm_Docx where
  "wasm_createDocx \<equiv> create ()"

abbreviation wasm_createAbstractNumbering :: "int \<Rightarrow> wasm_AbstractNumbering" where
  "wasm_createAbstractNumbering i \<equiv> create i"

abbreviation wasm_createNumbering :: "int \<Rightarrow> int \<Rightarrow> wasm_Numbering" where
  "wasm_createNumbering i abstractNumId \<equiv> create (i, abstractNumId)"

abbreviation wasm_createLevelOverride :: "int \<Rightarrow> wasm_LevelOverride" where
  "wasm_createLevelOverride level \<equiv> create level"

abbreviation wasm_createPageMargin :: wasm_PageMargin where
  "wasm_createPageMargin \<equiv> create ()"

abbreviation wasm_createWebExtension ::
  "string \<Rightarrow> string \<Rightarrow> string \<Rightarrow> string \<Rightarrow> string \<Rightarrow> wasm_WebExtension" where
  "wasm_createWebExtension i referenceId version store storeType \<equiv>
     create (i, referenceId, version, store, storeType)"

text \<open>The callback of \<^verbatim>\<open>this.children.forEach\<close> (lines 759-771).\<close>

definition createDocx_child :: "DocxChild \<Rightarrow> wasm_Docx \<Rightarrow> wasm_Docx" where
  "createDocx_child child docx =
    (case child of
       Child_Paragraph p \<Rightarrow> call docx (Docx_add_paragraph (buildParagraph p))
     | Child_Table t \<Rightarrow> call docx (Docx_add_table (buildTable t))
     | Child_BookmarkStart i name \<Rightarrow> call docx (Docx_add_bookmark_start i name)
     | Child_BookmarkEnd i \<Rightarrow> call docx (Docx_add_bookmark_end i))"

text \<open>The callback of \<^verbatim>\<open>this.abstractNumberings.forEach\<close> (lines 773-780).\<close>

definition createDocx_abstractNumbering :: "AbstractNumbering \<Rightarrow> wasm_Docx \<Rightarrow> wasm_Docx" where
  "createDocx_abstractNumbering n docx =
    (let num = wasm_createAbstractNumbering (an_id n);
         num = fold (\<lambda>l num. call num (AbstractNumbering_add_level (buildLevel l)))
                 (an_levels n) num
     in call docx (Docx_add_abstract_numbering num))"

text \<open>
  The callback of \<^verbatim>\<open>n.overrides.forEach\<close> (lines 784-800); \<open>None\<close> is \<^verbatim>\<open>null\<close> here.
\<close>

definition createDocx_override :: "LevelOverride \<Rightarrow> wasm_Numbering \<Rightarrow> wasm_Numbering" where
  "createDocx_override o' num =
    (let levelOverride = wasm_createLevelOverride (lo_level o');
         levelOverride =
           (case lo_startOverride o' of
              None \<Rightarrow> levelOverride
            | Some start \<Rightarrow> call levelOverride (LevelOverride_start start));
         levelOverride =
           (case lo_levelOverride o' of
              None \<Rightarrow> levelOverride
            | Some lv \<Rightarrow>
                (let level = wasm_createLevel (ol_level lv) (ol_start lv) (ol_format lv)
                               (ol_text lv) (ol_jc lv)
                 in call levelOverride (LevelOverride_level level)))
     in call num (Numbering_add_override levelOverride))"

text \<open>The callback of \<^verbatim>\<open>this.numberings.forEach\<close> (lines 782-802).\<close>

definition createDocx_numbering :: "Numbering \<Rightarrow> wasm_Docx \<Rightarrow> wasm_Docx" where
  "createDocx_numbering n docx =
    (let num = wasm_createNumbering (num_id n) (num_abstractNumId n);
         num = fold createDocx_override (num_overrides n) num
     in call docx (Docx_add_numbering num))"

text \<open>
  The statements of createDocx after the three loops, in blocks: the settings (lines
  804-812), the page margin (814-827), the page size (829-840), the document grid
  (842-859), the styles (861-878), the document properties (880-894), the task panes
  (896-912).
\<close>

definition createDocx_settings :: "Settings \<Rightarrow> wasm_Docx \<Rightarrow> wasm_Docx" where
  "createDocx_settings s docx =
    (let docx = (if truthy_string (u_docId s) then call docx (Docx_doc_id (the (u_docId s)))
                 else docx);
         docx = call docx (Docx_default_tab_stop (u_defaultTabStop s));
         docx = fold (\<lambda>(name, val) docx. call docx (Docx_add_doc_var name val)) (u_docVars s) docx
     in docx)"

definition createDocx_pageMargin :: "SectionProperty \<Rightarrow> wasm_Docx \<Rightarrow> wasm_Docx" where
  "createDocx_pageMargin sp docx =
    (case u_pageMargin sp of
       None \<Rightarrow> docx
     | Some m \<Rightarrow>
         (let margin =
                call (call (call (call (call (call (call wasm_createPageMargin
                  (PageMargin_top (pm_top m)))
                  (PageMargin_left (pm_left m)))
                  (PageMargin_right (pm_right m)))
                  (PageMargin_bottom (pm_bottom m)))
                  (PageMargin_header (pm_header m)))
                  (PageMargin_footer (pm_footer m)))
                  (PageMargin_gutter (pm_gutter m))
          in call docx (Docx_page_margin margin)))"

definition createDocx_pageSize :: "SectionProperty \<Rightarrow> wasm_Docx \<Rightarrow> wasm_Docx" where
  "createDocx_pageSize sp docx =
    (case u_pageSize sp of
       None \<Rightarrow> docx
     | Some pageSize \<Rightarrow>
         (let docx = call docx (Docx_page_size (ps_w pageSize) (ps_h pageSize))
          in if ps_orient pageSize = Some ''landscape''
               then call docx (Docx_page_orient PageOrientationType_Landscape)
             else if ps_orient pageSize = Some ''portrait''
               then call docx (Docx_page_orient PageOrientationType_Portrait)
             else docx))"

definition createDocx_docGrid :: "SectionProperty \<Rightarrow> wasm_Docx \<Rightarrow> wasm_Docx" where
  "createDocx_docGrid sp docx =
    (case u_docGrid sp of
       None \<Rightarrow> docx
     | Some docGrid \<Rightarrow>
         (let ty = DocGridType_Default;
              ty = (if dg_gridType docGrid = ''lines'' then DocGridType_Lines
                    else if dg_gridType docGrid = ''linesAndChars'' then DocGridType_LinesAndChars
                    else if dg_gridType docGrid = ''snapToChars'' then DocGridType_SnapToChars
                    else ty)
          in call docx (Docx_doc_grid ty (dg_linePitch docGrid) (dg_charSpace docGrid))))"

text \<open>\<^verbatim>\<open>docDefaults.runProperty?.size\<close> is \<open>Option.bind (dd_runProperty defaults) rp_size\<close>.\<close>

definition createDocx_styles :: "Styles \<Rightarrow> wasm_Docx \<Rightarrow> wasm_Docx" where
  "createDocx_styles st docx =
    (case docDefaults st of
       None \<Rightarrow> docx
     | Some defaults \<Rightarrow>
         (let docx =
                (case Option.bind (dd_runProperty defaults) rp_fonts of
                   None \<Rightarrow> docx
                 | Some f \<Rightarrow>
                     (let fonts = buildRunFonts (Some f)
                      in call docx (Docx_default_fonts fonts)));
              docx =
                (if truthy_number (Option.bind (dd_runProperty defaults) rp_size)
                 then call docx
                        (Docx_default_size (the (Option.bind (dd_runProperty defaults) rp_size)))
                 else docx);
              docx =
                (if truthy_number (Option.bind (dd_runProperty defaults) rp_spacing)
                 then call docx
                        (Docx_default_spacing
                           (the (Option.bind (dd_runProperty defaults) rp_spacing)))
                 else docx)
          in docx))"

definition createDocx_docProps :: "DocProps \<Rightarrow> wasm_Docx \<Rightarrow> wasm_Docx" where
  "createDocx_docProps dp docx =
    (let docx = (if truthy_string (u_createdAt dp)
                 then call docx (Docx_created_at (the (u_createdAt dp))) else docx);
         docx = (if truthy_string (u_updatedAt dp)
                 then call docx (Docx_updated_at (the (u_updatedAt dp))) else docx);
         docx = fold (\<lambda>(key, item) docx. call docx (Docx_custom_property key item))
                  (u_customProperties dp) docx;
         docx = (if truthy_string (u_updatedAt dp)
                 then call docx (Docx_updated_at (the (u_updatedAt dp))) else docx)
     in docx)"

text \<open>The web extension built in the loop over \<^verbatim>\<open>this.webextensions\<close> (lines 900-909).\<close>

definition createDocx_webextension :: "WebExtension \<Rightarrow> wasm_WebExtension" where
  "createDocx_webextension e =
    (let ext = wasm_createWebExtension (we_id e) (we_referenceId e) (we_version e) (we_store e)
                 (we_storeType e);
         ext = fold (\<lambda>(name, val) ext. call ext (WebExtension_property name val))
                 (we_properties e) ext
     in ext)"

definition createDocx_taskpanes :: "Docx \<Rightarrow> wasm_Docx \<Rightarrow> wasm_Docx" where
  "createDocx_taskpanes this docx =
    (if u_taskpanes this
     then (let docx = call docx Docx_taskpanes;
               docx = fold (\<lambda>e docx. call docx (Docx_web_extension (createDocx_webextension e)))
                        (webextensions this) docx
           in docx)
     else docx)"

definition createDocx :: "Docx \<Rightarrow> wasm_Docx" where
  "createDocx this =
    (let docx = wasm_createDocx;
         docx = fold createDocx_child (children this) docx;
         docx = fold createDocx_abstractNumbering (abstractNumberings this) docx;
         docx = fold createDocx_numbering (numberings this) docx;
         docx = createDocx_settings (settings this) docx;
         docx = createDocx_pageMargin (sectionProperty this) docx;
         docx = createDocx_pageSize (sectionProperty this) docx;
         docx = createDocx_docGrid (sectionProperty this) docx;
         docx = createDocx_styles (styles this) docx;
         docx = createDocx_docProps (docProps this) docx;
         docx = createDocx_taskpanes this docx;
         docx = fold (\<lambda>(i, xml) docx. call docx (Docx_add_custom_item i xml))
                  (customItems this) docx
     in docx)"

subsection \<open>The mutators of Docx (lines 75-201)\<close>

text \<open>
  The field initialisers of the class. The constructors of \<^verbatim>\<open>Settings\<close>,
  \<^verbatim>\<open>DocProps\<close>, \<^verbatim>\<open>SectionProperty\<close> and \<^verbatim>\<open>Styles\<close> are not at hand: the objects
  they return are parameters.
\<close>

definition new_Docx :: "Settings \<Rightarrow> DocProps \<Rightarrow> SectionProperty \<Rightarrow> Styles \<Rightarrow> Docx" where
  "new_Docx new_Settings new_DocProps new_SectionProperty new_Styles =
    \<lparr>children = [], hasNumberings = False, abstractNumberings = [], numberings = [],
     settings = new_Settings, docProps = new_DocProps, sectionProperty = new_SectionProperty,
     u_taskpanes = False, webextensions = [], customItems = [], styles = new_Styles\<rparr>"

text \<open>Every mutator returns \<^verbatim>\<open>this\<close>: the function returns the instance as it has become.\<close>

definition addParagraph :: "Paragraph \<Rightarrow> Docx \<Rightarrow> Docx" where
  "addParagraph p this =
    (let this = (if p_hasNumberings p then this\<lparr>hasNumberings := True\<rparr> else this)
     in this\<lparr>children := children this @ [Child_Paragraph p]\<rparr>)"






text \<open>
  The mutators that hand their arguments to a method of \<^verbatim>\<open>this.settings\<close>,
  \<^verbatim>\<open>this.docProps\<close>, \<^verbatim>\<open>this.sectionProperty\<close> or \<^verbatim>\<open>this.styles\<close> and return \<^verbatim>\<open>this\<close>.
  Those methods are not at hand. \<open>on_settings m\<close> is such a mutator, given the method
  applied to its arguments as the function \<open>m\<close> from the object before the call to the
  object after it; each mutator below takes the method it calls as its first argument.
\<close>

definition on_settings :: "(Settings \<Rightarrow> Settings) \<Rightarrow> Docx \<Rightarrow> Docx" where
  "on_settings m this = this\<lparr>settings := m (settings this)\<rparr>"

definition on_docProps :: "(DocProps \<Rightarrow> DocProps) \<Rightarrow> Docx \<Rightarrow> Docx" where
  "on_docProps m this = this\<lparr>docProps := m (docProps this)\<rparr>"

definition on_sectionProperty :: "(SectionProperty \<Rightarrow> SectionProperty) \<Rightarrow> Docx \<Rightarrow> Docx" where
  "on_sectionProperty m this = this\<lparr>sectionProperty := m (sectionProperty this)\<rparr>"

definition on_styles :: "(Styles \<Rightarrow> Styles) \<Rightarrow> Docx \<Rightarrow> Docx" where
  "on_styles m this = this\<lparr>styles := m (styles this)\<rparr>"

definition docId :: "(string \<Rightarrow> Settings \<Rightarrow> Settings) \<Rightarrow> string \<Rightarrow> Docx \<Rightarrow> Docx" where
  "docId Settings_docId i this = on_settings (Settings_docId i) this"

definition defaultTabStop :: "(int \<Rightarrow> Settings \<Rightarrow> Settings) \<Rightarrow> int \<Rightarrow> Docx \<Rightarrow> Docx" where
  "defaultTabStop Settings_defaultTabStop stop this = on_settings (Settings_defaultTabStop stop) this"

definition createdAt :: "(string \<Rightarrow> DocProps \<Rightarrow> DocProps) \<Rightarrow> string \<Rightarrow> Docx \<Rightarrow> Docx" where
  "createdAt DocProps_createdAt date this = on_docProps (DocProps_createdAt date) this"

definition customProperty ::
  "(string \<Rightarrow> string \<Rightarrow> DocProps \<Rightarrow> DocProps) \<Rightarrow> string \<Rightarrow> string \<Rightarrow> Docx \<Rightarrow> Docx" where
  "customProperty DocProps_customProperty name item this =
     on_docProps (DocProps_customProperty name item) this"

definition updatedAt :: "(string \<Rightarrow> DocProps \<Rightarrow> DocProps) \<Rightarrow> string \<Rightarrow> Docx \<Rightarrow> Docx" where
  "updatedAt DocProps_updatedAt date this = on_docProps (DocProps_updatedAt date) this"

definition addDocVar ::
  "(string \<Rightarrow> string \<Rightarrow> Settings \<Rightarrow> Settings) \<Rightarrow> string \<Rightarrow> string \<Rightarrow> Docx \<Rightarrow> Docx" where
  "addDocVar Settings_addDocVar name val this = on_settings (Settings_addDocVar name val) this"

definition pageSize ::
  "(int \<Rightarrow> int \<Rightarrow> SectionProperty \<Rightarrow> SectionProperty) \<Rightarrow> int \<Rightarrow> int \<Rightarrow> Docx \<Rightarrow> Docx" where
  "pageSize SectionProperty_pageSize w h this =
     on_sectionProperty (SectionProperty_pageSize w h) this"

definition pageMargin ::
  "('m \<Rightarrow> SectionProperty \<Rightarrow> SectionProperty) \<Rightarrow> 'm \<Rightarrow> Docx \<Rightarrow> Docx" where
  "pageMargin SectionProperty_pageMargin margin this =
     on_sectionProperty (SectionProperty_pageMargin margin) this"

definition pageOrientation ::
  "(string \<Rightarrow> SectionProperty \<Rightarrow> SectionProperty) \<Rightarrow> string \<Rightarrow> Docx \<Rightarrow> Docx" where
  "pageOrientation SectionProperty_pageOrientation orientation this =
     on_sectionProperty (SectionProperty_pageOrientation orientation) this"

definition docGrid ::
  "(string \<Rightarrow> int option \<Rightarrow> int option \<Rightarrow> SectionProperty \<Rightarrow> SectionProperty)
     \<Rightarrow> string \<Rightarrow> int option \<Rightarrow> int option \<Rightarrow> Docx \<Rightarrow> Docx" where
  "docGrid SectionProperty_docGrid ty linePitch charSpace this =
     on_sectionProperty (SectionProperty_docGrid ty linePitch charSpace) this"

definition defaultSize :: "(int \<Rightarrow> Styles \<Rightarrow> Styles) \<Rightarrow> int \<Rightarrow> Docx \<Rightarrow> Docx" where
  "defaultSize Styles_defaultSize sz this = on_styles (Styles_defaultSize sz) this"

definition defaultFonts :: "(RunFonts \<Rightarrow> Styles \<Rightarrow> Styles) \<Rightarrow> RunFonts \<Rightarrow> Docx \<Rightarrow> Docx" where
  "defaultFonts Styles_defaultFonts fonts this = on_styles (Styles_defaultFonts fonts) this"

definition defaultSpacing :: "(int \<Rightarrow> Styles \<Rightarrow> Styles) \<Rightarrow> int \<Rightarrow> Docx \<Rightarrow> Docx" where
  "defaultSpacing Styles_defaultSpacing spacing this = on_styles (Styles_defaultSpacing spacing) this"

definition taskpanes :: "Docx \<Rightarrow> Docx" where
  "taskpanes this = this\<lparr>u_taskpanes := True\<rparr>"

definition webextension :: "WebExtension \<Rightarrow> Docx \<Rightarrow> Docx" where
  "webextension e this = this\<lparr>webextensions := webextensions this @ [e]\<rparr>"






subsection \<open>json, build, readDocx (lines 921-938)\<close>

text \<open>
  What the three functions call outside the file, as parameters: the wasm document's
  \<^verbatim>\<open>build(has_numberings)\<close> and \<^verbatim>\<open>json_with_update_comments()\<close>, the package's
  \<^verbatim>\<open>readDocx(buf)\<close>, and \<^verbatim>\<open>JSON.parse\<close>. \<open>'b\<close> is the type of byte buffers, \<open>'j\<close> of
  parsed JSON values. The serializer may depend on its surroundings (the clock): \<open>'t\<close>
  is what it reads from them. Each may raise.
\<close>

record ('t, 'b, 'j) host =
  Docx_build :: "'t \<Rightarrow> wasm_Docx \<Rightarrow> bool \<Rightarrow> error + 'b"
  Docx_json_with_update_comments :: "wasm_Docx \<Rightarrow> error + string"
  wasm_readDocx :: "'b \<Rightarrow> error + string"
  JSON_parse :: "string \<Rightarrow> error + 'j"

text \<open>
  The wasm documents alive, by pointer. \<^verbatim>\<open>createDocx()\<close> returns the one object it has
  not handed on to another (every object it builds on the way is passed to a method of
  its parent, which takes it over); \<^verbatim>\<open>docx.free()\<close> releases it.
\<close>

type_synonym wasm_heap = "(nat \<times> wasm_Docx) list"

definition wasm_alloc :: "wasm_Docx \<Rightarrow> wasm_heap \<Rightarrow> nat \<times> wasm_heap" where
  "wasm_alloc d heap = (let ptr = Suc (fold max (map fst heap) 0) in (ptr, (ptr, d) # heap))"

definition wasm_free :: "nat \<Rightarrow> wasm_heap \<Rightarrow> wasm_heap" where
  "wasm_free ptr heap = filter (\<lambda>(p, d). p \<noteq> ptr) heap"

text \<open>
  A terminal call takes the instance and the heap and returns its result with the
  instance and the heap as they are afterwards. An exception raised by the wasm call
  leaves the function before \<^verbatim>\<open>docx.free()\<close>.
\<close>

definition json :: "('t, 'b, 'j) host \<Rightarrow> Docx \<times> wasm_heap \<Rightarrow> (error + 'j) \<times> Docx \<times> wasm_heap" where
  "json H s =
    (case s of (this, heap) \<Rightarrow>
       (case wasm_alloc (createDocx this) heap of (docx, heap) \<Rightarrow>
          (case Docx_json_with_update_comments H (createDocx this) of
             Inl e \<Rightarrow> (Inl e, this, heap)
           | Inr js \<Rightarrow>
               (let heap = wasm_free docx heap
                in (JSON_parse H js, this, heap)))))"

definition build :: "('t, 'b, 'j) host \<Rightarrow> 't \<Rightarrow> Docx \<times> wasm_heap \<Rightarrow> (error + 'b) \<times> Docx \<times> wasm_heap" where
  "build H now s =
    (case s of (this, heap) \<Rightarrow>
       (case wasm_alloc (createDocx this) heap of (docx, heap) \<Rightarrow>
          (case Docx_build H now (createDocx this) (hasNumberings this) of
             Inl e \<Rightarrow> (Inl e, this, heap)
           | Inr buf \<Rightarrow>
               (let heap = wasm_free docx heap
                in (Inr buf, this, heap)))))"

definition readDocx :: "('t, 'b, 'j) host \<Rightarrow> 'b \<Rightarrow> error + 'j" where
  "readDocx H buf = (case wasm_readDocx H buf of Inl e \<Rightarrow> Inl e | Inr js \<Rightarrow> JSON_parse H js)"

subsection \<open>Reading the calls made on a wasm object\<close>

text \<open>
  The calls of one kind among the calls made on a wasm document or table cell, in the
  order they were made: the page size and orientation calls; the web extensions handed
  over by \<^verbatim>\<open>web_extension\<close>; the \<^verbatim>\<open>taskpanes()\<close> calls; the (id, abstractNumId) pairs of
  the numberings and the ids of the abstract numberings handed over; the borders set on
  a table cell, and those of them at one position.
\<close>

fun is_page_call :: "Docx_call \<Rightarrow> bool" where
  "is_page_call (Docx_page_size w h) = True"
| "is_page_call (Docx_page_orient ot) = True"
| "is_page_call c = False"

fun web_extension_of :: "Docx_call \<Rightarrow> wasm_WebExtension option" where
  "web_extension_of (Docx_web_extension e) = Some e"
| "web_extension_of c = None"

fun is_taskpanes_call :: "Docx_call \<Rightarrow> bool" where
  "is_taskpanes_call Docx_taskpanes = True"
| "is_taskpanes_call c = False"

fun numbering_of :: "Docx_call \<Rightarrow> (int \<times> int) option" where
  "numbering_of (Docx_add_numbering num) = Some (created_with num)"
| "numbering_of c = None"

fun abstract_numbering_of :: "Docx_call \<Rightarrow> int option" where
  "abstract_numbering_of (Docx_add_abstract_numbering num) = Some (created_with num)"
| "abstract_numbering_of c = None"

fun border_of :: "TableCell_call \<Rightarrow> wasm_TableCellBorder option" where
  "border_of (TableCell_set_border b) = Some b"
| "border_of c = None"

definition borders_at :: "TableCellBorderPosition \<Rightarrow> wasm_TableCell \<Rightarrow> wasm_TableCellBorder list" where
  "borders_at position cell =
     [b \<leftarrow> List.map_filter border_of (calls cell). created_with b = position]"

text \<open>
  The slot of the borders object that buildCellBorders reads for a position of the wasm
  enumeration (the pairing of its eight blocks).
\<close>

fun slot :: "TableCellBorderPosition \<Rightarrow> TableCellBorders \<Rightarrow> TableCellBorder option" where
  "slot Position_Top bs = borders_top bs"
| "slot Position_Right bs = borders_right bs"
| "slot Position_Bottom bs = borders_bottom bs"
| "slot Position_Left bs = borders_left bs"
| "slot Position_InsideH bs = borders_insideH bs"
| "slot Position_InsideV bs = borders_insideV bs"
| "slot Position_Tl2br bs = borders_tl2br bs"
| "slot Position_Tr2bl bs = borders_tr2bl bs"

text \<open>
  The block of createDocx that makes a call, in the order of the blocks: the children
  (1), the abstract numberings (2), the numberings (3), the settings (4), the page
  margin (5), the page size (6), the document grid (7), the styles (8), the document
  properties (9), the task panes (10), the custom items (11).
\<close>

fun block_of :: "Docx_call \<Rightarrow> nat" where
  "block_of (Docx_add_paragraph p) = 1"
| "block_of (Docx_add_table t) = 1"
| "block_of (Docx_add_bookmark_start i name) = 1"
| "block_of (Docx_add_bookmark_end i) = 1"
| "block_of (Docx_add_abstract_numbering num) = 2"
| "block_of (Docx_add_numbering num) = 3"
| "block_of (Docx_doc_id i) = 4"
| "block_of (Docx_default_tab_stop stop) = 4"
| "block_of (Docx_add_doc_var name val) = 4"
| "block_of (Docx_page_margin margin) = 5"
| "block_of (Docx_page_size w h) = 6"
| "block_of (Docx_page_orient ot) = 6"
| "block_of (Docx_doc_grid ty linePitch charSpace) = 7"
| "block_of (Docx_default_fonts fonts) = 8"
| "block_of (Docx_default_size n) = 8"
| "block_of (Docx_default_spacing n) = 8"
| "block_of (Docx_created_at date) = 9"
| "block_of (Docx_updated_at date) = 9"
| "block_of (Docx_custom_property name item) = 9"
| "block_of Docx_taskpanes = 10"
| "block_of (Docx_web_extension e) = 10"
| "block_of (Docx_add_custom_item i xml) = 11"

subsection \<open>Sample values\<close>

text \<open>
  Concrete objects on which the functions above are evaluated below: a document as
  \<^verbatim>\<open>new Docx()\<close> leaves it (with sample objects for the four constructors that are not at
  hand), the paragraph of the tests, and a host. \<open>sample_host\<close> returns the wasm
  document and the flag it was given as its buffer.
\<close>

definition sample_RunProperty :: RunProperty where
  "sample_RunProperty =
    \<lparr>rp_size = None, rp_color = None, rp_highlight = None, rp_vertAlign = None,
     rp_bold = False, rp_italic = False, rp_underline = None, rp_vanish = False,
     rp_spacing = None, rp_textBorder = None, rp_fonts = None\<rparr>"

definition sample_Run :: Run where
  "sample_Run = \<lparr>run_children = [Text ''Hello world!!''], run_property = sample_RunProperty\<rparr>"

definition sample_ParagraphProperty :: ParagraphProperty where
  "sample_ParagraphProperty =
    \<lparr>pp_align = None, pp_indent = None, pp_numbering = None, pp_styleId = None,
     pp_runProperty = sample_RunProperty, pp_lineSpacing = None, pp_keepLines = False,
     pp_keepNext = False, pp_pageBreakBefore = False, pp_windowControl = False\<rparr>"

definition sample_Paragraph :: Paragraph where
  "sample_Paragraph = Paragraph [PChild_Run sample_Run] sample_ParagraphProperty False"


definition sample_Settings :: Settings where
  "sample_Settings = \<lparr>u_docId = None, u_defaultTabStop = 840, u_docVars = []\<rparr>"

definition sample_DocProps :: DocProps where
  "sample_DocProps = \<lparr>u_createdAt = None, u_updatedAt = None, u_customProperties = []\<rparr>"

definition sample_SectionProperty :: SectionProperty where
  "sample_SectionProperty = \<lparr>u_pageMargin = None, u_pageSize = None, u_docGrid = None\<rparr>"

definition sample_Styles :: Styles where
  "sample_Styles = \<lparr>docDefaults = None\<rparr>"

definition sample_Docx :: Docx where
  "sample_Docx = new_Docx sample_Settings sample_DocProps sample_SectionProperty sample_Styles"

definition sample_WebExtension :: WebExtension where
  "sample_WebExtension =
    \<lparr>we_id = ''7f33b723-fb58-4524-8733-dbedc4b7c095'', we_referenceId = ''abcd'',
     we_version = ''1.0.0.0'', we_store = ''developer'', we_storeType = ''Registry'',
     we_properties = [(''hello'', ''world'')]\<rparr>"

definition sample_TableCellBorder :: TableCellBorder where
  "sample_TableCellBorder = \<lparr>tcb_size = 2, tcb_color = ''000000'', tcb_border_type = ''single''\<rparr>"

definition sample_CellProperty :: CellProperty where
  "sample_CellProperty =
    \<lparr>cp_verticalMerge = None, cp_verticalAlign = None, cp_gridSpan = None, cp_width = None,
     cp_textDirection = None,
     cp_borders = Some
       \<lparr>borders_top = None, borders_right = None, borders_bottom = None, borders_left = None,
        borders_insideH = None, borders_insideV = None,
        borders_tl2br = Some sample_TableCellBorder,
        borders_tr2bl = Some (sample_TableCellBorder\<lparr>tcb_border_type := ''wavy''\<rparr>)\<rparr>,
     cp_shading = None\<rparr>"

definition sample_host :: "(unit, wasm_Docx \<times> bool, string) host" where
  "sample_host =
    \<lparr>Docx_build = (\<lambda>now docx has_numberings. Inr (docx, has_numberings)),
     Docx_json_with_update_comments = (\<lambda>docx. Inr ''{}''),
     wasm_readDocx = (\<lambda>buf. Inr ''{}''),
     JSON_parse = (\<lambda>js. Inr js)\<rparr>"


section \<open>Properties\<close>

subsection \<open>Calls on wasm objects\<close>

lemma calls_call: "calls (call obj c) = calls obj @ [c]"
  by (simp add: call_def)

lemma created_with_call: "created_with (call obj c) = created_with obj"
  by (simp add: call_def)

lemma calls_create: "calls (create a) = []"
  by (simp add: create_def)

lemma created_with_create: "created_with (create a) = a"
  by (simp add: create_def)

subsection \<open>The conversions of string literals\<close>

text \<open>
  C4. An unrecognised border-type string converts to \<open>Single\<close>, an unrecognised
  width-type string to \<open>DXA\<close>. Both conversions are total: no string makes them fail.
\<close>

theorem convert_default_fallback:
  "(t \<notin> {''nil'', ''none'', ''single'', ''thick'', ''double'', ''dotted'', ''dashed'',
          ''dotDash'', ''dotDotDash'', ''triple''}
      \<longrightarrow> convertBorderType t = BorderType_Single)
   \<and> (u \<notin> {''nil'', ''Pct'', ''DXA'', ''Auto''} \<longrightarrow> convertWidthType u = WidthType_DXA)"
  by (simp add: convertBorderType_def convertWidthType_def)

theorem convert_default_fallback_witness:
  "(''wavy'' \<notin> {''nil'', ''none'', ''single'', ''thick'', ''double'', ''dotted'', ''dashed'',
          ''dotDash'', ''dotDotDash'', ''triple''}
      \<and> convertBorderType ''wavy'' = BorderType_Single)
   \<and> (''Percent'' \<notin> {''nil'', ''Pct'', ''DXA'', ''Auto''}
      \<and> convertWidthType ''Percent'' = WidthType_DXA)"
  using convert_default_fallback [of "''wavy''" "''Percent''"] by simp

subsection \<open>Breaks of a run\<close>

lemma buildRun_child_unrecognised:
  "ty \<notin> {''column'', ''page'', ''textWrapping''} \<Longrightarrow> buildRun_child (Break ty) run = run"
  by (simp add: buildRun_child_def)

text \<open>
  C10. A Break child whose type is none of "column", "page", "textWrapping" leaves the
  run under construction as it is: buildRun makes no call for it, and the run built is
  the run built without that child.
\<close>

theorem buildRun_drops_unrecognised_break:
  "ty \<notin> {''column'', ''page'', ''textWrapping''} \<Longrightarrow>
     buildRun_child (Break ty) run = run
     \<and> buildRun (r\<lparr>run_children := before @ Break ty # after\<rparr>)
       = buildRun (r\<lparr>run_children := before @ after\<rparr>)"
  by (simp add: buildRun_def buildRun_child_unrecognised)

theorem buildRun_drops_unrecognised_break_witness:
  "''line'' \<notin> {''column'', ''page'', ''textWrapping''}
   \<and> buildRun (sample_Run\<lparr>run_children := [Text ''a''] @ Break ''line'' # [Break ''page'']\<rparr>)
       = Wasm_obj () [Run_add_text ''a'', Run_add_break BreakType_Page,
                      Run_fonts (Wasm_obj () [])]
   \<and> buildRun (sample_Run\<lparr>run_children := [Text ''a''] @ [Break ''page'']\<rparr>)
       = Wasm_obj () [Run_add_text ''a'', Run_add_break BreakType_Page,
                      Run_fonts (Wasm_obj () [])]"
  using buildRun_drops_unrecognised_break
    [where ty = "''line''" and r = sample_Run and before = "[Text ''a'']"
       and after = "[Break ''page'']" and run = "create ()"]
  by (simp add: sample_Run_def sample_RunProperty_def buildRun_def buildRun_child_def
      buildRun_property_def buildRunFonts_def truthy_string_def call_def create_def)

subsection \<open>The calls createDocx makes\<close>

lemma calls_fold:
  assumes "\<And>x d. calls (f x d) = calls d @ g x"
  shows "calls (fold f xs d) = calls d @ concat (map g xs)"
proof (induction xs arbitrary: d)
  case Nil
  show ?case by simp
next
  case (Cons x xs)
  show ?case by (simp add: Cons.IH assms)
qed

lemma calls_fold_pairs:
  "calls (fold (\<lambda>(a, b) d. call d (G a b)) xs d) = calls d @ map (\<lambda>(a, b). G a b) xs"
  by (induction xs arbitrary: d) (auto simp: calls_call)

lemma created_with_fold:
  assumes "\<And>x d. created_with (f x d) = created_with d"
  shows "created_with (fold f xs d) = created_with d"
  by (induction xs arbitrary: d) (simp_all add: assms)

lemma calls_createDocx_child:
  "calls (createDocx_child c d) = calls d @ calls (createDocx_child c wasm_createDocx)"
  by (cases c) (simp_all add: createDocx_child_def calls_call calls_create)

lemma calls_createDocx_abstractNumbering:
  "calls (createDocx_abstractNumbering n d)
     = calls d @ calls (createDocx_abstractNumbering n wasm_createDocx)"
  by (simp add: createDocx_abstractNumbering_def Let_def calls_call calls_create)

lemma calls_createDocx_numbering:
  "calls (createDocx_numbering n d) = calls d @ calls (createDocx_numbering n wasm_createDocx)"
  by (simp add: createDocx_numbering_def Let_def calls_call calls_create)

lemma calls_createDocx_settings:
  "calls (createDocx_settings s d) = calls d @ calls (createDocx_settings s wasm_createDocx)"
  by (simp add: createDocx_settings_def Let_def calls_call calls_create calls_fold_pairs)

lemma calls_createDocx_pageMargin:
  "calls (createDocx_pageMargin sp d) = calls d @ calls (createDocx_pageMargin sp wasm_createDocx)"
  by (simp add: createDocx_pageMargin_def Let_def calls_call calls_create split: option.split)

lemma calls_createDocx_pageSize:
  "calls (createDocx_pageSize sp d) = calls d @ calls (createDocx_pageSize sp wasm_createDocx)"
  by (simp add: createDocx_pageSize_def Let_def calls_call calls_create split: option.split)

lemma calls_createDocx_docGrid:
  "calls (createDocx_docGrid sp d) = calls d @ calls (createDocx_docGrid sp wasm_createDocx)"
  by (simp add: createDocx_docGrid_def Let_def calls_call calls_create split: option.split)

lemma calls_createDocx_styles:
  "calls (createDocx_styles st d) = calls d @ calls (createDocx_styles st wasm_createDocx)"
  by (simp add: createDocx_styles_def Let_def calls_call calls_create split: option.split)

lemma calls_createDocx_docProps:
  "calls (createDocx_docProps dp d) = calls d @ calls (createDocx_docProps dp wasm_createDocx)"
  by (simp add: createDocx_docProps_def Let_def calls_call calls_create calls_fold_pairs)

lemma calls_fold_web_extension:
  "calls (fold (\<lambda>e docx. call docx (Docx_web_extension (createDocx_webextension e))) es d)
     = calls d @ map (\<lambda>e. Docx_web_extension (createDocx_webextension e)) es"
  by (induction es arbitrary: d) (simp_all add: calls_call)

lemma calls_createDocx_taskpanes:
  "calls (createDocx_taskpanes this d)
     = calls d @ (if u_taskpanes this
                  then Docx_taskpanes
                       # map (\<lambda>e. Docx_web_extension (createDocx_webextension e)) (webextensions this)
                  else [])"
  by (simp add: createDocx_taskpanes_def Let_def calls_call calls_fold_web_extension)

text \<open>
  The calls createDocx makes on the wasm document, block by block: every block only
  adds calls to those made before it.
\<close>

lemma calls_createDocx:
  "calls (createDocx this) =
     concat (map (\<lambda>c. calls (createDocx_child c wasm_createDocx)) (children this))
     @ concat (map (\<lambda>n. calls (createDocx_abstractNumbering n wasm_createDocx))
                 (abstractNumberings this))
     @ concat (map (\<lambda>n. calls (createDocx_numbering n wasm_createDocx)) (numberings this))
     @ calls (createDocx_settings (settings this) wasm_createDocx)
     @ calls (createDocx_pageMargin (sectionProperty this) wasm_createDocx)
     @ calls (createDocx_pageSize (sectionProperty this) wasm_createDocx)
     @ calls (createDocx_docGrid (sectionProperty this) wasm_createDocx)
     @ calls (createDocx_styles (styles this) wasm_createDocx)
     @ calls (createDocx_docProps (docProps this) wasm_createDocx)
     @ (if u_taskpanes this
        then Docx_taskpanes
             # map (\<lambda>e. Docx_web_extension (createDocx_webextension e)) (webextensions this)
        else [])
     @ map (\<lambda>(i, xml). Docx_add_custom_item i xml) (customItems this)"
proof -
  define d1 where "d1 = fold createDocx_child (children this) wasm_createDocx"
  define d2 where "d2 = fold createDocx_abstractNumbering (abstractNumberings this) d1"
  define d3 where "d3 = fold createDocx_numbering (numberings this) d2"
  define d4 where "d4 = createDocx_settings (settings this) d3"
  define d5 where "d5 = createDocx_pageMargin (sectionProperty this) d4"
  define d6 where "d6 = createDocx_pageSize (sectionProperty this) d5"
  define d7 where "d7 = createDocx_docGrid (sectionProperty this) d6"
  define d8 where "d8 = createDocx_styles (styles this) d7"
  define d9 where "d9 = createDocx_docProps (docProps this) d8"
  define d10 where "d10 = createDocx_taskpanes this d9"
  have c1: "calls d1
      = concat (map (\<lambda>c. calls (createDocx_child c wasm_createDocx)) (children this))"
    unfolding d1_def
    by (subst calls_fold [where g = "\<lambda>c. calls (createDocx_child c wasm_createDocx)"])
       (simp_all add: calls_createDocx_child [symmetric] calls_create)
  have c2: "calls d2 = calls d1
      @ concat (map (\<lambda>n. calls (createDocx_abstractNumbering n wasm_createDocx))
                  (abstractNumberings this))"
    unfolding d2_def
    by (rule calls_fold) (rule calls_createDocx_abstractNumbering)
  have c3: "calls d3 = calls d2
      @ concat (map (\<lambda>n. calls (createDocx_numbering n wasm_createDocx)) (numberings this))"
    unfolding d3_def
    by (rule calls_fold) (rule calls_createDocx_numbering)
  have c4: "calls d4 = calls d3 @ calls (createDocx_settings (settings this) wasm_createDocx)"
    unfolding d4_def by (rule calls_createDocx_settings)
  have c5: "calls d5
      = calls d4 @ calls (createDocx_pageMargin (sectionProperty this) wasm_createDocx)"
    unfolding d5_def by (rule calls_createDocx_pageMargin)
  have c6: "calls d6
      = calls d5 @ calls (createDocx_pageSize (sectionProperty this) wasm_createDocx)"
    unfolding d6_def by (rule calls_createDocx_pageSize)
  have c7: "calls d7
      = calls d6 @ calls (createDocx_docGrid (sectionProperty this) wasm_createDocx)"
    unfolding d7_def by (rule calls_createDocx_docGrid)
  have c8: "calls d8 = calls d7 @ calls (createDocx_styles (styles this) wasm_createDocx)"
    unfolding d8_def by (rule calls_createDocx_styles)
  have c9: "calls d9 = calls d8 @ calls (createDocx_docProps (docProps this) wasm_createDocx)"
    unfolding d9_def by (rule calls_createDocx_docProps)
  have c10: "calls d10 = calls d9
      @ (if u_taskpanes this
         then Docx_taskpanes
              # map (\<lambda>e. Docx_web_extension (createDocx_webextension e)) (webextensions this)
         else [])"
    unfolding d10_def by (rule calls_createDocx_taskpanes)
  have "createDocx this
      = fold (\<lambda>(i, xml) docx. call docx (Docx_add_custom_item i xml)) (customItems this) d10"
    by (simp add: createDocx_def Let_def d1_def d2_def d3_def d4_def d5_def d6_def d7_def
        d8_def d9_def d10_def)
  then have "calls (createDocx this)
      = calls d10 @ map (\<lambda>(i, xml). Docx_add_custom_item i xml) (customItems this)"
    by (simp add: calls_fold_pairs)
  then show ?thesis
    by (simp only: c1 c2 c3 c4 c5 c6 c7 c8 c9 c10 append_assoc)
qed

lemma block_of_children:
  "\<forall>c \<in> set (concat (map (\<lambda>c. calls (createDocx_child c wasm_createDocx)) cs)). block_of c = 1"
proof -
  have "\<forall>c \<in> set (calls (createDocx_child x wasm_createDocx)). block_of c = 1" for x
    by (cases x) (simp_all add: createDocx_child_def calls_call calls_create)
  then show ?thesis by auto
qed

lemma block_of_abstractNumberings:
  "\<forall>c \<in> set (concat (map (\<lambda>n. calls (createDocx_abstractNumbering n wasm_createDocx)) ns)).
     block_of c = 2"
  by (auto simp: createDocx_abstractNumbering_def Let_def calls_call calls_create)

lemma block_of_numberings:
  "\<forall>c \<in> set (concat (map (\<lambda>n. calls (createDocx_numbering n wasm_createDocx)) ns)).
     block_of c = 3"
  by (auto simp: createDocx_numbering_def Let_def calls_call calls_create)

lemma block_of_settings:
  "\<forall>c \<in> set (calls (createDocx_settings s wasm_createDocx)). block_of c = 4"
  by (auto simp: createDocx_settings_def Let_def calls_call calls_create calls_fold_pairs)

lemma block_of_pageMargin:
  "\<forall>c \<in> set (calls (createDocx_pageMargin sp wasm_createDocx)). block_of c = 5"
  by (auto simp: createDocx_pageMargin_def Let_def calls_call calls_create split: option.split)

lemma block_of_pageSize:
  "\<forall>c \<in> set (calls (createDocx_pageSize sp wasm_createDocx)). block_of c = 6"
  by (auto simp: createDocx_pageSize_def Let_def calls_call calls_create split: option.split)

lemma block_of_docGrid:
  "\<forall>c \<in> set (calls (createDocx_docGrid sp wasm_createDocx)). block_of c = 7"
  by (auto simp: createDocx_docGrid_def Let_def calls_call calls_create split: option.split)

lemma block_of_styles:
  "\<forall>c \<in> set (calls (createDocx_styles st wasm_createDocx)). block_of c = 8"
  by (auto simp: createDocx_styles_def Let_def calls_call calls_create split: option.split)

lemma block_of_docProps:
  "\<forall>c \<in> set (calls (createDocx_docProps dp wasm_createDocx)). block_of c = 9"
  by (auto simp: createDocx_docProps_def Let_def calls_call calls_create calls_fold_pairs)

lemma block_of_customItems:
  "\<forall>c \<in> set (map (\<lambda>(i, xml). Docx_add_custom_item i xml) items). block_of c = 11"
  by auto

lemma filter_other_block:
  assumes "\<forall>c \<in> set cs. block_of c = k" and "\<And>c. P c \<Longrightarrow> block_of c = k'" and "k \<noteq> k'"
  shows "filter P cs = []"
  using assms by (auto simp: filter_empty_conv)

text \<open>
  The calls of one block among the calls of createDocx: where \<open>P\<close> holds of calls of
  block \<open>k\<close> only, the blocks other than \<open>k\<close> contribute nothing to \<open>filter P\<close>.
\<close>

lemma filter_calls_createDocx:
  assumes P: "\<And>c. P c \<Longrightarrow> block_of c = k"
  shows "filter P (calls (createDocx this)) =
     (if k = 1 then filter P (concat (map (\<lambda>c. calls (createDocx_child c wasm_createDocx))
                                        (children this)))
      else if k = 2
        then filter P (concat (map (\<lambda>n. calls (createDocx_abstractNumbering n wasm_createDocx))
                                 (abstractNumberings this)))
      else if k = 3
        then filter P (concat (map (\<lambda>n. calls (createDocx_numbering n wasm_createDocx))
                                 (numberings this)))
      else if k = 4 then filter P (calls (createDocx_settings (settings this) wasm_createDocx))
      else if k = 5
        then filter P (calls (createDocx_pageMargin (sectionProperty this) wasm_createDocx))
      else if k = 6
        then filter P (calls (createDocx_pageSize (sectionProperty this) wasm_createDocx))
      else if k = 7
        then filter P (calls (createDocx_docGrid (sectionProperty this) wasm_createDocx))
      else if k = 8 then filter P (calls (createDocx_styles (styles this) wasm_createDocx))
      else if k = 9 then filter P (calls (createDocx_docProps (docProps this) wasm_createDocx))
      else if k = 10
        then filter P
               (if u_taskpanes this
                then Docx_taskpanes
                     # map (\<lambda>e. Docx_web_extension (createDocx_webextension e))
                         (webextensions this)
                else [])
      else if k = 11
        then filter P (map (\<lambda>(i, xml). Docx_add_custom_item i xml) (customItems this))
      else [])"
proof -
  note other = filter_other_block [where P = P and k' = k, OF _ P]
  have tp: "\<forall>c \<in> set (if u_taskpanes this
                then Docx_taskpanes
                     # map (\<lambda>e. Docx_web_extension (createDocx_webextension e))
                         (webextensions this)
                else []). block_of c = 10"
    by auto
  have b1: "k \<noteq> 1 \<Longrightarrow> filter P (concat (map (\<lambda>c. calls (createDocx_child c wasm_createDocx))
                                        (children this))) = []"
    by (rule other [OF block_of_children]) auto
  have b2: "k \<noteq> 2 \<Longrightarrow>
      filter P (concat (map (\<lambda>n. calls (createDocx_abstractNumbering n wasm_createDocx))
                          (abstractNumberings this))) = []"
    by (rule other [OF block_of_abstractNumberings]) auto
  have b3: "k \<noteq> 3 \<Longrightarrow>
      filter P (concat (map (\<lambda>n. calls (createDocx_numbering n wasm_createDocx))
                          (numberings this))) = []"
    by (rule other [OF block_of_numberings]) auto
  have b4: "k \<noteq> 4 \<Longrightarrow> filter P (calls (createDocx_settings (settings this) wasm_createDocx)) = []"
    by (rule other [OF block_of_settings]) auto
  have b5: "k \<noteq> 5 \<Longrightarrow>
      filter P (calls (createDocx_pageMargin (sectionProperty this) wasm_createDocx)) = []"
    by (rule other [OF block_of_pageMargin]) auto
  have b6: "k \<noteq> 6 \<Longrightarrow>
      filter P (calls (createDocx_pageSize (sectionProperty this) wasm_createDocx)) = []"
    by (rule other [OF block_of_pageSize]) auto
  have b7: "k \<noteq> 7 \<Longrightarrow>
      filter P (calls (createDocx_docGrid (sectionProperty this) wasm_createDocx)) = []"
    by (rule other [OF block_of_docGrid]) auto
  have b8: "k \<noteq> 8 \<Longrightarrow> filter P (calls (createDocx_styles (styles this) wasm_createDocx)) = []"
    by (rule other [OF block_of_styles]) auto
  have b9: "k \<noteq> 9 \<Longrightarrow> filter P (calls (createDocx_docProps (docProps this) wasm_createDocx)) = []"
    by (rule other [OF block_of_docProps]) auto
  have b10: "k \<noteq> 10 \<Longrightarrow>
      filter P (if u_taskpanes this
                then Docx_taskpanes
                     # map (\<lambda>e. Docx_web_extension (createDocx_webextension e))
                         (webextensions this)
                else []) = []"
    by (rule other [OF tp]) auto
  have b11: "k \<noteq> 11 \<Longrightarrow>
      filter P (map (\<lambda>(i, xml). Docx_add_custom_item i xml) (customItems this)) = []"
    by (rule other [OF block_of_customItems]) auto
  show ?thesis
    unfolding calls_createDocx filter_append
    using b1 b2 b3 b4 b5 b6 b7 b8 b9 b10 b11 by simp
qed

subsection \<open>Page size and orientation\<close>

lemma is_page_call_block: "is_page_call c \<Longrightarrow> block_of c = 6"
  by (cases c) simp_all

text \<open>
  C7. With a page size of width \<open>w\<close> and height \<open>h\<close> (as 16838 and 11906) and the
  orientation "landscape", the page calls createDocx makes on the wasm document are
  \<^verbatim>\<open>page_size(w, h)\<close> with the two numbers as they stand in the model, in that order,
  followed by \<^verbatim>\<open>page_orient(Landscape)\<close>, and no other: the front end does not swap
  width and height for the orientation.
\<close>

theorem createDocx_page_size_literal:
  assumes "u_pageSize (sectionProperty this)
             = Some \<lparr>ps_w = w, ps_h = h, ps_orient = Some ''landscape''\<rparr>"
  shows "filter is_page_call (calls (createDocx this))
           = [Docx_page_size w h, Docx_page_orient PageOrientationType_Landscape]"
  using assms
  by (simp add: filter_calls_createDocx [where k = 6, OF is_page_call_block]
      createDocx_pageSize_def Let_def calls_call calls_create)

theorem createDocx_page_size_literal_witness:
  "u_pageSize (sectionProperty
       (on_sectionProperty
          (\<lambda>sp. sp\<lparr>u_pageSize := Some \<lparr>ps_w = 16838, ps_h = 11906, ps_orient = Some ''landscape''\<rparr>\<rparr>)
          (addParagraph sample_Paragraph sample_Docx)))
     = Some \<lparr>ps_w = 16838, ps_h = 11906, ps_orient = Some ''landscape''\<rparr>
   \<and> filter is_page_call
       (calls (createDocx
          (on_sectionProperty
             (\<lambda>sp. sp\<lparr>u_pageSize := Some \<lparr>ps_w = 16838, ps_h = 11906, ps_orient = Some ''landscape''\<rparr>\<rparr>)
             (addParagraph sample_Paragraph sample_Docx))))
     = [Docx_page_size 16838 11906, Docx_page_orient PageOrientationType_Landscape]"
  using createDocx_page_size_literal
    [where this = "on_sectionProperty
          (\<lambda>sp. sp\<lparr>u_pageSize := Some \<lparr>ps_w = 16838, ps_h = 11906, ps_orient = Some ''landscape''\<rparr>\<rparr>)
          (addParagraph sample_Paragraph sample_Docx)"
       and w = 16838 and h = 11906]
  by (simp add: on_sectionProperty_def)

subsection \<open>Task panes and web extensions\<close>

lemma is_taskpanes_call_block: "is_taskpanes_call c \<Longrightarrow> block_of c = 10"
  by (cases c) simp_all

lemma web_extension_of_block: "web_extension_of c \<noteq> None \<Longrightarrow> block_of c = 10"
  by (cases c) simp_all

text \<open>
  C8. createDocx calls \<^verbatim>\<open>taskpanes()\<close> on the wasm document exactly when task panes
  were enabled (\<open>u_taskpanes\<close>), and then hands it every registered web extension, in
  order; with \<open>u_taskpanes\<close> false it makes no \<^verbatim>\<open>taskpanes()\<close> and no
  \<^verbatim>\<open>web_extension\<close> call, whatever was registered with \<^verbatim>\<open>webextension()\<close>. The
  serializer gets to see a web extension only through these calls.
\<close>

theorem createDocx_web_extensions_iff_taskpanes:
  "filter is_taskpanes_call (calls (createDocx this))
     = (if u_taskpanes this then [Docx_taskpanes] else [])
   \<and> List.map_filter web_extension_of (calls (createDocx this))
     = (if u_taskpanes this then map createDocx_webextension (webextensions this) else [])"
proof -
  have "filter is_taskpanes_call
          (map (\<lambda>e. Docx_web_extension (createDocx_webextension e)) es) = []" for es
    by (induction es) simp_all
  then have taskpanes: "filter is_taskpanes_call (calls (createDocx this))
      = (if u_taskpanes this then [Docx_taskpanes] else [])"
    by (simp add: filter_calls_createDocx [where k = 10, OF is_taskpanes_call_block])
  have "List.map_filter web_extension_of
          (map (\<lambda>e. Docx_web_extension (createDocx_webextension e)) es)
        = map createDocx_webextension es" for es
    by (induction es) simp_all
  then have "List.map_filter web_extension_of (calls (createDocx this))
      = (if u_taskpanes this then map createDocx_webextension (webextensions this) else [])"
    unfolding List.map_filter_def [of web_extension_of "calls (createDocx this)"]
    by (simp add: filter_calls_createDocx [where k = 10, OF web_extension_of_block]
        List.map_filter_def)
  with taskpanes show ?thesis by simp
qed

theorem createDocx_web_extensions_iff_taskpanes_witness:
  "List.map_filter web_extension_of
       (calls (createDocx (webextension sample_WebExtension sample_Docx))) = []
   \<and> filter is_taskpanes_call
       (calls (createDocx (webextension sample_WebExtension sample_Docx))) = []
   \<and> List.map_filter web_extension_of
       (calls (createDocx (webextension sample_WebExtension (taskpanes sample_Docx))))
     = [Wasm_obj (''7f33b723-fb58-4524-8733-dbedc4b7c095'', ''abcd'', ''1.0.0.0'',
                  ''developer'', ''Registry'')
          [WebExtension_property ''hello'' ''world'']]
   \<and> filter is_taskpanes_call
       (calls (createDocx (webextension sample_WebExtension (taskpanes sample_Docx))))
     = [Docx_taskpanes]"
  using createDocx_web_extensions_iff_taskpanes
      [of "webextension sample_WebExtension sample_Docx"]
    createDocx_web_extensions_iff_taskpanes
      [of "webextension sample_WebExtension (taskpanes sample_Docx)"]
  by (simp add: webextension_def taskpanes_def sample_Docx_def new_Docx_def
      sample_WebExtension_def createDocx_webextension_def call_def create_def)

subsection \<open>Numbering references\<close>

lemma numbering_of_block: "numbering_of c \<noteq> None \<Longrightarrow> block_of c = 3"
  by (cases c) simp_all

lemma abstract_numbering_of_block: "abstract_numbering_of c \<noteq> None \<Longrightarrow> block_of c = 2"
  by (cases c) simp_all

lemma created_with_fold_override:
  "created_with (fold createDocx_override os num) = created_with num"
  by (rule created_with_fold) (simp add: createDocx_override_def Let_def created_with_call)

text \<open>
  createDocx hands the wasm document every numbering with its id and abstractNumId,
  and every abstract numbering with its id, as they stand in the model.
\<close>

lemma numberings_of_createDocx:
  "List.map_filter numbering_of (calls (createDocx this))
     = map (\<lambda>n. (num_id n, num_abstractNumId n)) (numberings this)"
proof -
  have "map (the \<circ> numbering_of)
          (filter (\<lambda>c. numbering_of c \<noteq> None)
            (concat (map (\<lambda>n. calls (createDocx_numbering n wasm_createDocx)) ns)))
        = map (\<lambda>n. (num_id n, num_abstractNumId n)) ns" for ns
    by (induction ns)
       (simp_all add: createDocx_numbering_def Let_def calls_call calls_create
          created_with_fold_override created_with_create)
  then show ?thesis
    unfolding List.map_filter_def
    by (simp add: filter_calls_createDocx [where k = 3, OF numbering_of_block])
qed

lemma abstract_numberings_of_createDocx:
  "List.map_filter abstract_numbering_of (calls (createDocx this))
     = map an_id (abstractNumberings this)"
proof -
  have fold: "created_with (fold (\<lambda>l num. call num (AbstractNumbering_add_level (buildLevel l)))
                              ls num) = created_with num" for ls and num :: wasm_AbstractNumbering
    by (rule created_with_fold) (simp add: created_with_call)
  have "map (the \<circ> abstract_numbering_of)
          (filter (\<lambda>c. abstract_numbering_of c \<noteq> None)
            (concat (map (\<lambda>n. calls (createDocx_abstractNumbering n wasm_createDocx)) ns)))
        = map an_id ns" for ns
    by (induction ns)
       (simp_all add: createDocx_abstractNumbering_def Let_def calls_call calls_create
          fold created_with_create)
  then show ?thesis
    unfolding List.map_filter_def
    by (simp add: filter_calls_createDocx [where k = 2, OF abstract_numbering_of_block])
qed

subsection \<open>The numbering flag\<close>












subsection \<open>The lifetime of the wasm document\<close>

lemma fold_max_ge: "a \<le> fold max xs (a::nat)"
proof (induction xs arbitrary: a)
  case Nil
  show ?case by simp
next
  case (Cons x xs)
  have "a \<le> max x a" by simp
  also have "max x a \<le> fold max xs (max x a)" by (rule Cons.IH)
  finally show ?case by simp
qed

lemma fold_max_upper: "x \<in> set xs \<Longrightarrow> x \<le> fold max xs (a::nat)"
proof (induction xs arbitrary: a)
  case Nil
  then show ?case by simp
next
  case (Cons y ys)
  show ?case
  proof (cases "x = y")
    case True
    have "x \<le> max y a" using True by simp
    also have "max y a \<le> fold max ys (max y a)" by (rule fold_max_ge)
    finally show ?thesis by simp
  next
    case False
    with Cons.prems have "x \<in> set ys" by simp
    then have "x \<le> fold max ys (max y a)" by (rule Cons.IH)
    then show ?thesis by simp
  qed
qed

lemma wasm_free_alloc:
  "wasm_free (fst (wasm_alloc d heap)) (snd (wasm_alloc d heap)) = heap"
proof -
  have "p \<noteq> Suc (fold max (map fst heap) 0)" if "(p, d') \<in> set heap" for p d'
    using fold_max_upper [of p "map fst heap" 0] that by force
  then have "filter (\<lambda>(p, d'). p \<noteq> Suc (fold max (map fst heap) 0)) heap = heap"
    by (auto simp: filter_id_conv)
  then show ?thesis by (simp add: wasm_alloc_def wasm_free_def Let_def)
qed

text \<open>
  C9, as the code has it. A terminal call only reads the instance: build() and json()
  return it as it was. What is released is the wasm document that createDocx made:
  where the wasm call returns, \<^verbatim>\<open>docx.free()\<close> leaves the heap of wasm documents as it
  was before the terminal call; where the wasm call raises, \<^verbatim>\<open>free()\<close> is not reached and
  that document stays allocated.
\<close>

theorem terminal_call_frees_wasm_document:
  "snd (build H now (this, heap))
     = (this, case Docx_build H now (createDocx this) (hasNumberings this) of
                Inr buf \<Rightarrow> heap
              | Inl e \<Rightarrow> snd (wasm_alloc (createDocx this) heap))
   \<and> snd (json H (this, heap))
     = (this, case Docx_json_with_update_comments H (createDocx this) of
                Inr js \<Rightarrow> heap
              | Inl e \<Rightarrow> snd (wasm_alloc (createDocx this) heap))"
proof -
  have eq: "(case wasm_alloc d heap of (docx, heap') \<Rightarrow> f docx heap')
      = f (fst (wasm_alloc d heap)) (snd (wasm_alloc d heap))" for d f
    by (simp add: case_prod_beta)
  show ?thesis
    by (simp add: build_def json_def eq Let_def wasm_free_alloc split: sum.split)
qed

theorem terminal_call_frees_wasm_document_witness:
  "snd (build sample_host () (addParagraph sample_Paragraph sample_Docx, []))
     = (addParagraph sample_Paragraph sample_Docx, [])
   \<and> snd (json sample_host (addParagraph sample_Paragraph sample_Docx, []))
     = (addParagraph sample_Paragraph sample_Docx, [])"
  using terminal_call_frees_wasm_document
    [of sample_host "()" "addParagraph sample_Paragraph sample_Docx" "[]"]
  by (simp add: sample_host_def)

text \<open>
  The claim C9 as stated fails: after build() the instance still holds its tree.
\<close>

theorem model_survives_build:
  "fst (snd (build sample_host () (addParagraph sample_Paragraph sample_Docx, [])))
     = addParagraph sample_Paragraph sample_Docx
   \<and> children (fst (snd (build sample_host () (addParagraph sample_Paragraph sample_Docx, []))))
     = [Child_Paragraph sample_Paragraph]"
  by (simp add: build_def sample_host_def wasm_alloc_def wasm_free_def addParagraph_def
      sample_Docx_def new_Docx_def sample_Paragraph_def Let_def)

subsection \<open>Web extensions without task panes\<close>

text \<open>
  A document without task panes is the same wasm document to createDocx whatever web
  extensions were registered with it.
\<close>

lemma createDocx_webextensions_ignored:
  "\<not> u_taskpanes this \<Longrightarrow> createDocx (this\<lparr>webextensions := ws\<rparr>) = createDocx this"
  by (simp add: createDocx_def createDocx_taskpanes_def)

subsection \<open>The borders of a table cell\<close>

lemma borders_at_call:
  "borders_at position (call cell c)
     = borders_at position cell
       @ (case border_of c of
            None \<Rightarrow> []
          | Some b \<Rightarrow> if created_with b = position then [b] else [])"
  by (simp add: borders_at_def calls_call List.map_filter_def split: option.split)

lemma created_with_buildCellBorder: "created_with (buildCellBorder position b) = position"
  by (simp add: buildCellBorder_def created_with_call created_with_create)

lemma borders_at_set_border_if:
  "borders_at position (set_border_if s p cell)
     = borders_at position cell
       @ (case s of
            None \<Rightarrow> []
          | Some b \<Rightarrow> if p = position then [buildCellBorder p b] else [])"
  by (simp add: set_border_if_def borders_at_call created_with_buildCellBorder
      split: option.split)

text \<open>
  Where the borders object is defined, buildCellBorders runs its eight blocks in order
  and raises nothing.
\<close>

lemma buildCellBorders_Some:
  assumes "cp_borders (cell_property js) = Some bs"
  shows "buildCellBorders js cell =
     Inr (set_border_if (borders_tr2bl bs) Position_Tr2bl
       (set_border_if (borders_tl2br bs) Position_Tl2br
         (set_border_if (borders_insideV bs) Position_InsideV
           (set_border_if (borders_insideH bs) Position_InsideH
             (set_border_if (borders_left bs) Position_Left
               (set_border_if (borders_bottom bs) Position_Bottom
                 (set_border_if (borders_right bs) Position_Right
                   (set_border_if (borders_top bs) Position_Top cell))))))))"
  using assms by (simp add: buildCellBorders_def Let_def)

text \<open>
  The eight blocks add, for every position, the border of that position's slot and
  nothing else: what they set at one position does not depend on the other slots.
\<close>

lemma borders_at_eight_blocks:
  "borders_at position
     (set_border_if (borders_tr2bl bs) Position_Tr2bl
       (set_border_if (borders_tl2br bs) Position_Tl2br
         (set_border_if (borders_insideV bs) Position_InsideV
           (set_border_if (borders_insideH bs) Position_InsideH
             (set_border_if (borders_left bs) Position_Left
               (set_border_if (borders_bottom bs) Position_Bottom
                 (set_border_if (borders_right bs) Position_Right
                   (set_border_if (borders_top bs) Position_Top cell))))))))
   = borders_at position cell
     @ (case slot position bs of None \<Rightarrow> [] | Some b \<Rightarrow> [buildCellBorder position b])"
  by (cases position) (simp_all add: borders_at_set_border_if split: option.split)

lemma borders_at_fold_children:
  "borders_at position
     (fold (\<lambda>c cell. case c of
                        TCChild_Paragraph p \<Rightarrow> call cell (TableCell_add_paragraph (buildParagraph p))
                      | TCChild_Table t \<Rightarrow> call cell (TableCell_add_table (buildTable t)))
        cs cell)
   = borders_at position cell"
  by (induction cs arbitrary: cell)
     (simp_all add: borders_at_call split: TableCellChild.split)

lemma borders_at_buildCell_property:
  assumes "cp_borders (cell_property js) = Some bs"
  shows "borders_at position (buildCell_property js cell)
           = borders_at position cell
             @ (case slot position bs of None \<Rightarrow> [] | Some b \<Rightarrow> [buildCellBorder position b])"
proof -
  define property where "property = cell_property js"
  define cell1 where "cell1 =
     (if cp_verticalMerge property = Some ''continue''
        then call cell (TableCell_vertical_merge VMergeType_Continue)
      else if cp_verticalMerge property = Some ''restart''
        then call cell (TableCell_vertical_merge VMergeType_Restart)
      else cell)"
  define cell2 where "cell2 =
     (if cp_verticalAlign property = Some ''top''
        then call cell1 (TableCell_vertical_align VAlignType_Top)
      else if cp_verticalAlign property = Some ''center''
        then call cell1 (TableCell_vertical_align VAlignType_Center)
      else if cp_verticalAlign property = Some ''bottom''
        then call cell1 (TableCell_vertical_align VAlignType_Bottom)
      else cell1)"
  define cell3 where "cell3 =
     (case cp_gridSpan property of None \<Rightarrow> cell2 | Some n \<Rightarrow> call cell2 (TableCell_grid_span n))"
  define cell4 where "cell4 =
     (case cp_width property of None \<Rightarrow> cell3 | Some n \<Rightarrow> call cell3 (TableCell_width n))"
  define cell5 where "cell5 =
     (case cp_textDirection property of
        None \<Rightarrow> cell4 | Some d \<Rightarrow> call cell4 (TableCell_text_direction d))"
  define cell6 where "cell6 =
     set_border_if (borders_tr2bl bs) Position_Tr2bl
       (set_border_if (borders_tl2br bs) Position_Tl2br
         (set_border_if (borders_insideV bs) Position_InsideV
           (set_border_if (borders_insideH bs) Position_InsideH
             (set_border_if (borders_left bs) Position_Left
               (set_border_if (borders_bottom bs) Position_Bottom
                 (set_border_if (borders_right bs) Position_Right
                   (set_border_if (borders_top bs) Position_Top cell5)))))))"
  have b1: "borders_at position cell1 = borders_at position cell"
    by (simp add: cell1_def borders_at_call)
  have b2: "borders_at position cell2 = borders_at position cell1"
    by (simp add: cell2_def borders_at_call)
  have b3: "borders_at position cell3 = borders_at position cell2"
    by (simp add: cell3_def borders_at_call split: option.split)
  have b4: "borders_at position cell4 = borders_at position cell3"
    by (simp add: cell4_def borders_at_call split: option.split)
  have b5: "borders_at position cell5 = borders_at position cell4"
    by (simp add: cell5_def borders_at_call split: option.split)
  have b6: "borders_at position cell6
      = borders_at position cell5
        @ (case slot position bs of None \<Rightarrow> [] | Some b \<Rightarrow> [buildCellBorder position b])"
    unfolding cell6_def by (rule borders_at_eight_blocks)
  have "buildCell_property js cell
      = (case cp_shading property of
           None \<Rightarrow> cell6
         | Some shading \<Rightarrow>
             call cell6 (TableCell_shading (shading_type shading) (shading_color shading)
               (shading_fill shading)))"
    unfolding buildCell_property_def Let_def property_def [symmetric]
      cell1_def [symmetric] cell2_def [symmetric] cell3_def [symmetric] cell4_def [symmetric]
      cell5_def [symmetric]
    using assms
    by (simp add: property_def buildCellBorders_Some [OF assms] cell6_def split: option.split)
  then have "borders_at position (buildCell_property js cell) = borders_at position cell6"
    by (simp add: borders_at_call split: option.split)
  then show ?thesis
    by (simp add: b6 b5 b4 b3 b2 b1)
qed

lemma borders_at_buildCell:
  assumes "cp_borders property = Some bs"
  shows "borders_at position (buildCell (TableCell cs property))
           = (case slot position bs of None \<Rightarrow> [] | Some b \<Rightarrow> [buildCellBorder position b])"
proof -
  have "borders_at position (wasm_createTableCell) = []"
    by (simp add: borders_at_def calls_create)
  then show ?thesis
    using assms
    by (simp add: borders_at_buildCell_property [where bs = bs] borders_at_fold_children)
qed

text \<open>
  C6. For a cell whose borders object holds both diagonal borders, buildCellBorders
  raises nothing and sets a border at \<open>Tl2br\<close> built from the \<open>tl2br\<close> slot and a border
  at \<open>Tr2bl\<close> built from the \<open>tr2bl\<close> slot; at every position it adds the border of that
  position's own slot and nothing else, so neither diagonal touches the other nor any
  of the six other positions. The cell that buildCell builds carries both diagonal
  borders, one each.
\<close>

theorem buildCellBorders_keeps_both_diagonals:
  assumes "cp_borders property = Some bs"
    and "borders_tl2br bs = Some d1" and "borders_tr2bl bs = Some d2"
  shows "(\<exists>built. buildCellBorders (TableCell cs property) cell = Inr built
            \<and> borders_at Position_Tl2br built
                = borders_at Position_Tl2br cell @ [buildCellBorder Position_Tl2br d1]
            \<and> borders_at Position_Tr2bl built
                = borders_at Position_Tr2bl cell @ [buildCellBorder Position_Tr2bl d2]
            \<and> (\<forall>position. borders_at position built
                   = borders_at position cell
                     @ (case slot position bs of
                          None \<Rightarrow> []
                        | Some b \<Rightarrow> [buildCellBorder position b])))
    \<and> borders_at Position_Tl2br (buildCell (TableCell cs property))
        = [buildCellBorder Position_Tl2br d1]
    \<and> borders_at Position_Tr2bl (buildCell (TableCell cs property))
        = [buildCellBorder Position_Tr2bl d2]"
proof -
  define built where "built =
     set_border_if (borders_tr2bl bs) Position_Tr2bl
       (set_border_if (borders_tl2br bs) Position_Tl2br
         (set_border_if (borders_insideV bs) Position_InsideV
           (set_border_if (borders_insideH bs) Position_InsideH
             (set_border_if (borders_left bs) Position_Left
               (set_border_if (borders_bottom bs) Position_Bottom
                 (set_border_if (borders_right bs) Position_Right
                   (set_border_if (borders_top bs) Position_Top cell)))))))"
  have built: "buildCellBorders (TableCell cs property) cell = Inr built"
    unfolding built_def by (rule buildCellBorders_Some) (simp add: assms(1))
  have at: "borders_at position built
      = borders_at position cell
        @ (case slot position bs of None \<Rightarrow> [] | Some b \<Rightarrow> [buildCellBorder position b])"
    for position
    unfolding built_def by (rule borders_at_eight_blocks)
  have "borders_at Position_Tl2br built
      = borders_at Position_Tl2br cell @ [buildCellBorder Position_Tl2br d1]"
    using at [of Position_Tl2br] assms(2) by simp
  moreover have "borders_at Position_Tr2bl built
      = borders_at Position_Tr2bl cell @ [buildCellBorder Position_Tr2bl d2]"
    using at [of Position_Tr2bl] assms(3) by simp
  moreover have "borders_at Position_Tl2br (buildCell (TableCell cs property))
      = [buildCellBorder Position_Tl2br d1]"
    using borders_at_buildCell [OF assms(1), of Position_Tl2br cs] assms(2) by simp
  moreover have "borders_at Position_Tr2bl (buildCell (TableCell cs property))
      = [buildCellBorder Position_Tr2bl d2]"
    using borders_at_buildCell [OF assms(1), of Position_Tr2bl cs] assms(3) by simp
  ultimately show ?thesis using built at by blast
qed

theorem buildCellBorders_keeps_both_diagonals_witness:
  "borders_at Position_Tl2br
       (buildCell (TableCell [TCChild_Paragraph sample_Paragraph] sample_CellProperty))
     = [Wasm_obj Position_Tl2br
          [TableCellBorder_size 2, TableCellBorder_color ''000000'',
           TableCellBorder_border_type BorderType_Single]]
   \<and> borders_at Position_Tr2bl
       (buildCell (TableCell [TCChild_Paragraph sample_Paragraph] sample_CellProperty))
     = [Wasm_obj Position_Tr2bl
          [TableCellBorder_size 2, TableCellBorder_color ''000000'',
           TableCellBorder_border_type BorderType_Single]]
   \<and> borders_at Position_Top
       (buildCell (TableCell [TCChild_Paragraph sample_Paragraph] sample_CellProperty))
     = []"
proof -
  have c: "cp_borders sample_CellProperty = Some
       \<lparr>borders_top = None, borders_right = None, borders_bottom = None, borders_left = None,
        borders_insideH = None, borders_insideV = None,
        borders_tl2br = Some sample_TableCellBorder,
        borders_tr2bl = Some (sample_TableCellBorder\<lparr>tcb_border_type := ''wavy''\<rparr>)\<rparr>"
    by (simp add: sample_CellProperty_def)
  have top: "borders_at Position_Top
       (buildCell (TableCell [TCChild_Paragraph sample_Paragraph] sample_CellProperty)) = []"
    using borders_at_buildCell [OF c, of Position_Top "[TCChild_Paragraph sample_Paragraph]"]
    by simp
  show ?thesis
    using top buildCellBorders_keeps_both_diagonals
      [OF c, of sample_TableCellBorder "sample_TableCellBorder\<lparr>tcb_border_type := ''wavy''\<rparr>"
         "[TCChild_Paragraph sample_Paragraph]" wasm_createTableCell]
    by (simp add: buildCellBorder_def sample_TableCellBorder_def convertBorderType_def
        call_def create_def)
qed


end
